theory Spec2Isabelle
  imports Complex_Main
begin

section \<open>Data model\<close>

text \<open>
  Object identifiers and dates are opaque in the routes: an identifier is only compared
  for equality and a date is only stored, so both are natural numbers here (a date is a
  number of milliseconds).
\<close>

type_synonym ObjectId = nat
type_synonym Date = nat

subsection \<open>models/User.ts\<close>

datatype Role = Admin | Verifier

fun role_str :: "Role \<Rightarrow> string" where
  "role_str Admin = ''admin''"
| "role_str Verifier = ''verifier''"

text \<open>
  \<open>IUser\<close>. The record is split in two so that the projection \<open>.select('-password')\<close>
  of \<open>authenticateToken\<close> is the truncation of a \<open>User\<close> to its \<open>Identity\<close> part:
  \<open>req.user\<close> is an \<open>Identity\<close>, a stored document is a \<open>User\<close>.
\<close>

record Identity =
  user_id :: ObjectId
  user_email :: string
  role :: Role
  user_name :: string
  isActive :: bool
  user_createdAt :: Date
  user_updatedAt :: Date

record User = Identity +
  password :: string

definition User_findById :: "ObjectId \<Rightarrow> User list \<Rightarrow> User option" where
  "User_findById i users = List.find (\<lambda>u. user_id u = i) users"

definition select_minus_password :: "User \<Rightarrow> Identity" where
  "select_minus_password u = Identity.truncate u"

subsection \<open>models/Loan.ts\<close>

datatype LoanStatus = Pending | Verified | Approved | Rejected

fun status_str :: "LoanStatus \<Rightarrow> string" where
  "status_str Pending = ''pending''"
| "status_str Verified = ''verified''"
| "status_str Approved = ''approved''"
| "status_str Rejected = ''rejected''"

record Documents =
  idProof :: "string option"
  incomeProof :: "string option"
  addressProof :: "string option"

record Loan =
  loan_id :: ObjectId
  applicantName :: string
  email :: string
  phoneNumber :: string
  loanAmount :: rat
  loanPurpose :: string
  employmentStatus :: string
  monthlyIncome :: rat
  creditScore :: "rat option"
  status :: LoanStatus
  verifiedBy :: "ObjectId option"
  approvedBy :: "ObjectId option"
  verificationDate :: "Date option"
  approvalDate :: "Date option"
  rejectionReason :: "string option"
  documents :: Documents
  createdAt :: Date
  updatedAt :: Date

text \<open>
  A string is a list of characters with the codes 0 to 255, read as the code units
  U+0000 to U+00FF of a JavaScript string; a string with a code unit beyond U+00FF is not
  a value of the model.

  \<open>String.prototype.trim\<close>, the \<open>trim\<close> sanitizer of the validation chain (which
  strips \<open>\s\<close>) and the schema's \<open>trim: true\<close> all strip the same characters at both
  ends: white space and line terminators. Among the code units of the model these are
  TAB, LF, VT, FF, CR, the space and the no-break space U+00A0.

  \<open>String.prototype.toLowerCase\<close>, and with it the schema's \<open>lowercase: true\<close>, maps
  \<open>A\<close>..\<open>Z\<close> and the capital letters U+00C0..U+00DE (but for the multiplication sign
  U+00D7) to the code unit 32 places on, and leaves the other code units of the model as
  they are.

  Mongoose runs the schema's setters when a document is built, when an update is cast and
  when a query filter is cast.
\<close>

definition is_space :: "char \<Rightarrow> bool" where
  "is_space c =
     (c \<in> set [CHR 0x09, CHR 0x0A, CHR 0x0B, CHR 0x0C, CHR 0x0D, CHR '' '', CHR 0xA0])"

definition trim :: "string \<Rightarrow> string" where
  "trim s = rev (dropWhile is_space (rev (dropWhile is_space s)))"

definition lower_char :: "char \<Rightarrow> char" where
  "lower_char c =
     (let n = (of_char c :: nat)
      in if (65 \<le> n \<and> n \<le> 90) \<or> (192 \<le> n \<and> n \<le> 222 \<and> n \<noteq> 215)
         then char_of (n + 32) else c)"

definition toLowerCase :: "string \<Rightarrow> string" where
  "toLowerCase s = map lower_char s"

definition email_setter :: "string \<Rightarrow> string" where
  "email_setter s = trim (toLowerCase s)"

subsection \<open>The loan collection\<close>

text \<open>
  The collection is the list of its documents in insertion order. \<open>findById\<close> returns the
  first document with the identifier. \<open>findByIdAndUpdate(id, updateData, {new: true})\<close>
  writes the paths present in \<open>updateData\<close> into that document and, because the schema
  is declared with \<open>timestamps: true\<close>, sets \<open>updatedAt\<close> to the time of the write; it
  returns the document after the write, or \<open>null\<close> when there is none.
\<close>

definition Loan_findById :: "ObjectId \<Rightarrow> Loan list \<Rightarrow> Loan option" where
  "Loan_findById i loans = List.find (\<lambda>l. loan_id l = i) loans"

text \<open>
  \<open>updateData\<close>: an object holding some of the six paths the two transition routes
  write. \<open>None\<close> is a path that the object does not have.
\<close>

record UpdateData =
  upd_status :: "LoanStatus option"
  upd_verifiedBy :: "ObjectId option"
  upd_verificationDate :: "Date option"
  upd_approvedBy :: "ObjectId option"
  upd_approvalDate :: "Date option"
  upd_rejectionReason :: "string option"

definition set_path :: "'a option \<Rightarrow> 'a option \<Rightarrow> 'a option" where
  "set_path new old = (case new of None \<Rightarrow> old | Some v \<Rightarrow> Some v)"

definition apply_update :: "UpdateData \<Rightarrow> Date \<Rightarrow> Loan \<Rightarrow> Loan" where
  "apply_update u now l =
     l\<lparr> status := (case upd_status u of None \<Rightarrow> status l | Some s \<Rightarrow> s),
        verifiedBy := set_path (upd_verifiedBy u) (verifiedBy l),
        verificationDate := set_path (upd_verificationDate u) (verificationDate l),
        approvedBy := set_path (upd_approvedBy u) (approvedBy l),
        approvalDate := set_path (upd_approvalDate u) (approvalDate l),
        rejectionReason := set_path (map_option trim (upd_rejectionReason u)) (rejectionReason l),
        updatedAt := now \<rparr>"

fun update_first :: "ObjectId \<Rightarrow> (Loan \<Rightarrow> Loan) \<Rightarrow> Loan list \<Rightarrow> Loan list" where
  "update_first i f [] = []"
| "update_first i f (l # ls) = (if loan_id l = i then f l # ls else l # update_first i f ls)"

definition Loan_findByIdAndUpdate ::
  "ObjectId \<Rightarrow> UpdateData \<Rightarrow> Date \<Rightarrow> Loan list \<Rightarrow> Loan option \<times> Loan list" where
  "Loan_findByIdAndUpdate i u now loans =
     (map_option (apply_update u now) (Loan_findById i loans),
      update_first i (apply_update u now) loans)"

subsection \<open>Populated references\<close>

text \<open>
  \<open>.populate(path, 'name email')\<close> replaces the identifier stored at \<open>path\<close> by the
  referenced user document restricted to the selected paths; \<open>_id\<close> is always kept. A
  reference to a user that is not in the collection populates to \<open>null\<close>. A document is
  shown as the list of its paths and values.
\<close>

datatype FieldValue = IdV ObjectId | StrV string | BoolV bool | DateV Date

datatype Ref = Unset | RawId ObjectId | Null | Expanded "(string \<times> FieldValue) list"

definition user_fields :: "User \<Rightarrow> (string \<times> FieldValue) list" where
  "user_fields u =
     [(''_id'', IdV (user_id u)),
      (''email'', StrV (user_email u)),
      (''password'', StrV (password u)),
      (''role'', StrV (role_str (role u))),
      (''name'', StrV (user_name u)),
      (''isActive'', BoolV (isActive u)),
      (''createdAt'', DateV (user_createdAt u)),
      (''updatedAt'', DateV (user_updatedAt u))]"

definition select_fields :: "string list \<Rightarrow> (string \<times> FieldValue) list \<Rightarrow> (string \<times> FieldValue) list" where
  "select_fields paths fs = filter (\<lambda>kv. fst kv = ''_id'' \<or> fst kv \<in> set paths) fs"

definition populate :: "string list \<Rightarrow> User list \<Rightarrow> ObjectId option \<Rightarrow> Ref" where
  "populate paths users r =
     (case r of
        None \<Rightarrow> Unset
      | Some i \<Rightarrow> (case User_findById i users of
                    None \<Rightarrow> Null
                  | Some u \<Rightarrow> Expanded (select_fields paths (user_fields u))))"

definition unpopulated :: "ObjectId option \<Rightarrow> Ref" where
  "unpopulated r = (case r of None \<Rightarrow> Unset | Some i \<Rightarrow> RawId i)"

text \<open>
  A loan as it is serialised in a response: the document, with the two reference paths
  as they stand after the route's \<open>populate\<close> calls.
\<close>

record LoanView =
  view_doc :: Loan
  view_verifiedBy :: Ref
  view_approvedBy :: Ref

text \<open>\<open>.populate('verifiedBy', 'name email')\<close> alone, as the verify route chains it.\<close>

definition verify_view :: "User list \<Rightarrow> Loan \<Rightarrow> LoanView" where
  "verify_view users l =
     \<lparr> view_doc = l,
       view_verifiedBy = populate [''name'', ''email''] users (verifiedBy l),
       view_approvedBy = unpopulated (approvedBy l) \<rparr>"

text \<open>
  \<open>.populate('verifiedBy', 'name email').populate('approvedBy', 'name email')\<close>, as the
  approve route and the two read routes chain it.
\<close>

definition populate_both :: "User list \<Rightarrow> Loan \<Rightarrow> LoanView" where
  "populate_both users l =
     \<lparr> view_doc = l,
       view_verifiedBy = populate [''name'', ''email''] users (verifiedBy l),
       view_approvedBy = populate [''name'', ''email''] users (approvedBy l) \<rparr>"

section \<open>Responses\<close>

text \<open>
  The \<open>pagination\<close> object of a list response. \<open>pages\<close> is \<open>None\<close> when
  \<open>Math.ceil(total / limitNum)\<close> is not a finite number (it is serialised as \<open>null\<close>).
\<close>

record Pagination =
  page :: int
  limit :: int
  total :: nat
  pages :: "int option"

text \<open>One entry of \<open>statusDistribution\<close> in the dashboard statistics.\<close>

record StatusShare =
  share_status :: string
  share_count :: nat
  percentage :: string

datatype Payload =
    NoData
  | ValidationErrors "string list"
  | LoanData "LoanView option"
  | LoanList "LoanView list" Pagination
  | Application ObjectId LoanStatus
  | StatusDistribution "StatusShare list"

record Response =
  code :: nat
  success :: bool
  message :: "string option"
  payload :: Payload

definition failure :: "nat \<Rightarrow> string \<Rightarrow> Response" where
  "failure c m = \<lparr> code = c, success = False, message = Some m, payload = NoData \<rparr>"

section \<open>Loan lifecycle routes\<close>

text \<open>
  The path parameter \<open>:id\<close> after the cast to an object identifier that \<open>findById\<close>
  performs: \<open>BadId\<close> when the cast fails, which makes the query throw and the route
  answer 500 from its \<open>catch\<close> block.
\<close>

datatype IdParam = BadId | Oid ObjectId

text \<open>
  The two body fields of a transition request. \<open>None\<close> is an absent field. A value that
  is not a string behaves like one of the modelled cases: as an \<open>action\<close> it is not one
  of the two verbs, as a \<open>rejectionReason\<close> it is either falsy, like the absent field, or
  stored as its string form.
\<close>

definition array_includes :: "string list \<Rightarrow> string option \<Rightarrow> bool" where
  "array_includes xs v = (case v of None \<Rightarrow> False | Some s \<Rightarrow> s \<in> set xs)"

definition falsy :: "string option \<Rightarrow> bool" where
  "falsy v = (case v of None \<Rightarrow> True | Some s \<Rightarrow> s = [])"

definition msg_bad_action_verify :: string where
  "msg_bad_action_verify =
     ''Action must be either '' @ [CHR 0x22] @ ''verify'' @ [CHR 0x22] @ '' or '' @ [CHR 0x22] @ ''reject'' @ [CHR 0x22]"

definition msg_bad_action_approve :: string where
  "msg_bad_action_approve =
     ''Action must be either '' @ [CHR 0x22] @ ''approve'' @ [CHR 0x22] @ '' or '' @ [CHR 0x22] @ ''reject'' @ [CHR 0x22]"

text \<open>
  \<open>router.patch('/:id/verify', ...)\<close> of routes/loans.ts, the handler after the two
  gates, when no other request is served between its first line and its response.
\<close>

definition verify_updateData :: "Identity \<Rightarrow> string option \<Rightarrow> string option \<Rightarrow> Date \<Rightarrow> UpdateData" where
  "verify_updateData user action reason now =
     (if action = Some ''verify''
      then \<lparr> upd_status = Some Verified, upd_verifiedBy = Some (user_id user),
             upd_verificationDate = Some now, upd_approvedBy = None, upd_approvalDate = None,
             upd_rejectionReason = None \<rparr>
      else \<lparr> upd_status = Some Rejected, upd_verifiedBy = Some (user_id user),
             upd_verificationDate = Some now, upd_approvedBy = None, upd_approvalDate = None,
             upd_rejectionReason = reason \<rparr>)"

definition verify_handler ::
  "Identity \<Rightarrow> string option \<Rightarrow> string option \<Rightarrow> IdParam \<Rightarrow> Date \<Rightarrow> User list \<Rightarrow> Loan list
     \<Rightarrow> Response \<times> Loan list" where
  "verify_handler user action reason idp now users loans =
     (if \<not> array_includes [''verify'', ''reject''] action
      then (failure 400 msg_bad_action_verify, loans)
      else if action = Some ''reject'' \<and> falsy reason
      then (failure 400 ''Rejection reason is required'', loans)
      else (case idp of
          BadId \<Rightarrow> (failure 500 ''Server error during loan verification'', loans)
        | Oid i \<Rightarrow>
           (case Loan_findById i loans of
              None \<Rightarrow> (failure 404 ''Loan not found'', loans)
            | Some loan \<Rightarrow>
               if status loan \<noteq> Pending
               then (failure 400 ''Only pending loans can be verified or rejected'', loans)
               else
                 (case Loan_findByIdAndUpdate i (verify_updateData user action reason now) now loans of
                    (updatedLoan, loans') \<Rightarrow>
                      (\<lparr> code = 200, success = True,
                         message = Some (''Loan '' @ (if action = Some ''verify'' then ''verified'' else ''rejected'')
                                          @ '' successfully''),
                         payload = LoanData (map_option (verify_view users) updatedLoan) \<rparr>,
                       loans')))))"

text \<open>
  \<open>router.patch('/loans/:id/approve', ...)\<close> of routes/admin.ts, the handler after the
  two gates, when no other request is served between its first line and its response.
\<close>

definition approve_updateData :: "Identity \<Rightarrow> string option \<Rightarrow> string option \<Rightarrow> Date \<Rightarrow> UpdateData" where
  "approve_updateData user action reason now =
     (if action = Some ''approve''
      then \<lparr> upd_status = Some Approved, upd_verifiedBy = None, upd_verificationDate = None,
             upd_approvedBy = Some (user_id user), upd_approvalDate = Some now,
             upd_rejectionReason = None \<rparr>
      else \<lparr> upd_status = Some Rejected, upd_verifiedBy = None, upd_verificationDate = None,
             upd_approvedBy = Some (user_id user), upd_approvalDate = Some now,
             upd_rejectionReason = reason \<rparr>)"

definition approve_handler ::
  "Identity \<Rightarrow> string option \<Rightarrow> string option \<Rightarrow> IdParam \<Rightarrow> Date \<Rightarrow> User list \<Rightarrow> Loan list
     \<Rightarrow> Response \<times> Loan list" where
  "approve_handler user action reason idp now users loans =
     (if \<not> array_includes [''approve'', ''reject''] action
      then (failure 400 msg_bad_action_approve, loans)
      else if action = Some ''reject'' \<and> falsy reason
      then (failure 400 ''Rejection reason is required'', loans)
      else (case idp of
          BadId \<Rightarrow> (failure 500 ''Server error during loan approval'', loans)
        | Oid i \<Rightarrow>
           (case Loan_findById i loans of
              None \<Rightarrow> (failure 404 ''Loan not found'', loans)
            | Some loan \<Rightarrow>
               if status loan \<noteq> Verified
               then (failure 400 ''Only verified loans can be approved or rejected'', loans)
               else
                 (case Loan_findByIdAndUpdate i (approve_updateData user action reason now) now loans of
                    (updatedLoan, loans') \<Rightarrow>
                      (\<lparr> code = 200, success = True,
                         message = Some (''Loan '' @ (if action = Some ''approve'' then ''approved'' else ''rejected'')
                                          @ '' successfully''),
                         payload = LoanData (map_option (populate_both users) updatedLoan) \<rparr>,
                       loans')))))"

subsection \<open>The two halves of a transition handler\<close>

text \<open>
  Each handler awaits the store twice: \<open>await Loan.findById(...)\<close>, and after the
  status test \<open>await Loan.findByIdAndUpdate(req.params.id, updateData, ...)\<close>, whose
  filter is the identifier alone. Another request can be served between the two. The
  first half of a handler is everything up to \<open>updateData\<close>: it ends with a response,
  or with the write it has decided on. The second half performs that write on the
  collection as it is by then, at its own time, and answers 200.
\<close>

definition verify_read ::
  "Identity \<Rightarrow> string option \<Rightarrow> string option \<Rightarrow> IdParam \<Rightarrow> Date \<Rightarrow> Loan list
     \<Rightarrow> Response + ObjectId \<times> UpdateData" where
  "verify_read user action reason idp now loans =
     (if \<not> array_includes [''verify'', ''reject''] action
      then Inl (failure 400 msg_bad_action_verify)
      else if action = Some ''reject'' \<and> falsy reason
      then Inl (failure 400 ''Rejection reason is required'')
      else (case idp of
          BadId \<Rightarrow> Inl (failure 500 ''Server error during loan verification'')
        | Oid i \<Rightarrow>
           (case Loan_findById i loans of
              None \<Rightarrow> Inl (failure 404 ''Loan not found'')
            | Some loan \<Rightarrow>
               if status loan \<noteq> Pending
               then Inl (failure 400 ''Only pending loans can be verified or rejected'')
               else Inr (i, verify_updateData user action reason now))))"

definition verify_write ::
  "string option \<Rightarrow> User list \<Rightarrow> ObjectId \<times> UpdateData \<Rightarrow> Date \<Rightarrow> Loan list
     \<Rightarrow> Response \<times> Loan list" where
  "verify_write action users w write_time loans =
     (case Loan_findByIdAndUpdate (fst w) (snd w) write_time loans of
        (updatedLoan, loans') \<Rightarrow>
          (\<lparr> code = 200, success = True,
             message = Some (''Loan '' @ (if action = Some ''verify'' then ''verified'' else ''rejected'')
                              @ '' successfully''),
             payload = LoanData (map_option (verify_view users) updatedLoan) \<rparr>,
           loans'))"

definition approve_read ::
  "Identity \<Rightarrow> string option \<Rightarrow> string option \<Rightarrow> IdParam \<Rightarrow> Date \<Rightarrow> Loan list
     \<Rightarrow> Response + ObjectId \<times> UpdateData" where
  "approve_read user action reason idp now loans =
     (if \<not> array_includes [''approve'', ''reject''] action
      then Inl (failure 400 msg_bad_action_approve)
      else if action = Some ''reject'' \<and> falsy reason
      then Inl (failure 400 ''Rejection reason is required'')
      else (case idp of
          BadId \<Rightarrow> Inl (failure 500 ''Server error during loan approval'')
        | Oid i \<Rightarrow>
           (case Loan_findById i loans of
              None \<Rightarrow> Inl (failure 404 ''Loan not found'')
            | Some loan \<Rightarrow>
               if status loan \<noteq> Verified
               then Inl (failure 400 ''Only verified loans can be approved or rejected'')
               else Inr (i, approve_updateData user action reason now))))"

definition approve_write ::
  "string option \<Rightarrow> User list \<Rightarrow> ObjectId \<times> UpdateData \<Rightarrow> Date \<Rightarrow> Loan list
     \<Rightarrow> Response \<times> Loan list" where
  "approve_write action users w write_time loans =
     (case Loan_findByIdAndUpdate (fst w) (snd w) write_time loans of
        (updatedLoan, loans') \<Rightarrow>
          (\<lparr> code = 200, success = True,
             message = Some (''Loan '' @ (if action = Some ''approve'' then ''approved'' else ''rejected'')
                              @ '' successfully''),
             payload = LoanData (map_option (populate_both users) updatedLoan) \<rparr>,
           loans'))"

section \<open>middleware/auth.ts\<close>

text \<open>
  \<open>String.prototype.split(' ')\<close>: the pieces between single spaces, empty pieces kept;
  the empty string splits into one empty piece.
\<close>

fun split_space :: "string \<Rightarrow> string list" where
  "split_space [] = [[]]"
| "split_space (c # cs) =
     (if c = CHR '' '' then [] # split_space cs
      else (case split_space cs of [] \<Rightarrow> [[c]] | w # ws \<Rightarrow> (c # w) # ws))"

definition at_index :: "'a list \<Rightarrow> nat \<Rightarrow> 'a option" where
  "at_index xs n = (if n < length xs then Some (xs ! n) else None)"

text \<open>\<open>authHeader && authHeader.split(' ')[1]\<close>: an empty header is itself the (falsy) result.\<close>

definition bearer_token :: "string option \<Rightarrow> string option" where
  "bearer_token authHeader =
     (case authHeader of
        None \<Rightarrow> None
      | Some h \<Rightarrow> if h = [] then Some [] else at_index (split_space h) 1)"

text \<open>
  The environment of the gate. \<open>jwt_verify token secret\<close> stands for
  \<open>jwt.verify(token, jwtSecret)\<close> of the jsonwebtoken library followed by the cast of
  \<open>decoded.userId\<close> that \<open>User.findById\<close> performs: \<open>None\<close> when \<open>jwt.verify\<close> throws
  (a malformed token, a bad signature, an expired token), otherwise the user identifier
  of the payload, \<open>BadId\<close> when it is not an object identifier and the query throws.
  \<open>JWT_SECRET\<close> is \<open>process.env.JWT_SECRET\<close>.
\<close>

record Env =
  jwt_verify :: "string \<Rightarrow> string \<Rightarrow> IdParam option"
  JWT_SECRET :: "string option"

text \<open>
  \<open>authenticateToken\<close>: \<open>Inl\<close> is the response written by the gate, \<open>Inr\<close> is the
  identity stored in \<open>req.user\<close> before \<open>next()\<close> is called. Every \<open>throw\<close> inside the
  \<open>try\<close> block ends in the \<open>catch\<close> block, which answers 403.
\<close>

definition authenticateToken :: "Env \<Rightarrow> User list \<Rightarrow> string option \<Rightarrow> Response + Identity" where
  "authenticateToken env users authorization =
     (case bearer_token authorization of
        None \<Rightarrow> Inl (failure 401 ''Access token required'')
      | Some token \<Rightarrow>
          if token = [] then Inl (failure 401 ''Access token required'')
          else (case JWT_SECRET env of
              None \<Rightarrow> Inl (failure 403 ''Invalid or expired token'')
            | Some jwtSecret \<Rightarrow>
               if jwtSecret = [] then Inl (failure 403 ''Invalid or expired token'')
               else
               (case jwt_verify env token jwtSecret of
                  None \<Rightarrow> Inl (failure 403 ''Invalid or expired token'')
                | Some BadId \<Rightarrow> Inl (failure 403 ''Invalid or expired token'')
                | Some (Oid userId) \<Rightarrow>
                   (case User_findById userId users of
                      None \<Rightarrow> Inl (failure 401 ''Invalid or inactive user'')
                    | Some u \<Rightarrow>
                        if \<not> isActive u then Inl (failure 401 ''Invalid or inactive user'')
                        else Inr (select_minus_password u)))))"

text \<open>\<open>authorizeRole(roles)\<close>: \<open>None\<close> is \<open>next()\<close>, \<open>Some r\<close> the response written.\<close>

definition authorizeRole :: "string list \<Rightarrow> Identity option \<Rightarrow> Response option" where
  "authorizeRole roles req_user =
     (case req_user of
        None \<Rightarrow> Some (failure 401 ''Authentication required'')
      | Some user \<Rightarrow>
          if role_str (role user) \<notin> set roles then Some (failure 403 ''Insufficient permissions'')
          else None)"

definition adminOnly :: "Identity option \<Rightarrow> Response option" where
  "adminOnly = authorizeRole [''admin'']"

definition verifierOrAdmin :: "Identity option \<Rightarrow> Response option" where
  "verifierOrAdmin = authorizeRole [''verifier'', ''admin'']"

text \<open>
  The chain \<open>authenticateToken, authorizeRole(roles)\<close> in front of a handler: the
  response of the first gate that answers, or the identity that reaches the handler.
\<close>

definition gate :: "string list \<Rightarrow> Env \<Rightarrow> User list \<Rightarrow> string option \<Rightarrow> Response + Identity" where
  "gate roles env users authorization =
     (case authenticateToken env users authorization of
        Inl r \<Rightarrow> Inl r
      | Inr user \<Rightarrow> (case authorizeRole roles (Some user) of Some r \<Rightarrow> Inl r | None \<Rightarrow> Inr user))"

section \<open>The two transition endpoints\<close>

text \<open>
  \<open>PATCH /api/loans/:id/verify\<close> is registered as
  \<open>authenticateToken, verifierOrAdmin, handler\<close>; \<open>PATCH /api/admin/loans/:id/approve\<close>
  sits behind \<open>router.use(authenticateToken, adminOnly)\<close>.
\<close>

definition verify_endpoint ::
  "Env \<Rightarrow> string option \<Rightarrow> string option \<Rightarrow> string option \<Rightarrow> IdParam \<Rightarrow> Date \<Rightarrow> User list \<Rightarrow> Loan list
     \<Rightarrow> Response \<times> Loan list" where
  "verify_endpoint env authorization action reason idp now users loans =
     (case gate [''verifier'', ''admin''] env users authorization of
        Inl r \<Rightarrow> (r, loans)
      | Inr user \<Rightarrow> verify_handler user action reason idp now users loans)"

definition approve_endpoint ::
  "Env \<Rightarrow> string option \<Rightarrow> string option \<Rightarrow> string option \<Rightarrow> IdParam \<Rightarrow> Date \<Rightarrow> User list \<Rightarrow> Loan list
     \<Rightarrow> Response \<times> Loan list" where
  "approve_endpoint env authorization action reason idp now users loans =
     (case gate [''admin''] env users authorization of
        Inl r \<Rightarrow> (r, loans)
      | Inr user \<Rightarrow> approve_handler user action reason idp now users loans)"

section \<open>Submission: POST /api/loans/apply\<close>

text \<open>
  The two functions of the validator library that the chain \<open>loanValidation\<close> calls on
  the email field and that are not code of this repository.
\<close>

record Validator =
  isEmail :: "string \<Rightarrow> bool"
  normalizeEmail :: "string \<Rightarrow> string"

text \<open>
  A numeric field of the body that no validator of the chain looks at: absent (also
  \<open>null\<close> and the empty string, which the schema casts to no value), present and not
  castable to a number, or a number.
\<close>

datatype NumberField = Absent | NotNumeric | Numeric rat

text \<open>
  The request body. An absent string field is the empty string (the chain validates the
  string form of the field). \<open>loanAmount\<close> and \<open>monthlyIncome\<close> are \<open>None\<close> when
  they are absent or not a number: \<open>isFloat\<close> refuses both alike. \<open>creditScore\<close> is not
  in the chain, so the three cases are kept apart. \<open>documents\<close> is absent or an object
  of the three optional strings.
\<close>

record ApplyBody =
  body_applicantName :: string
  body_email :: string
  body_phoneNumber :: string
  body_loanAmount :: "rat option"
  body_loanPurpose :: string
  body_employmentStatus :: string
  body_monthlyIncome :: "rat option"
  body_creditScore :: NumberField
  body_documents :: "Documents option"

definition isFloat :: "rat \<Rightarrow> rat option \<Rightarrow> rat option \<Rightarrow> bool" where
  "isFloat lo hi v =
     (case v of
        None \<Rightarrow> False
      | Some x \<Rightarrow> lo \<le> x \<and> (case hi of None \<Rightarrow> True | Some h \<Rightarrow> x \<le> h))"

definition employment_enum :: "string list" where
  "employment_enum = [''employed'', ''self-employed'', ''unemployed'', ''retired'']"

text \<open>
  \<open>validationResult(req).array()\<close> after the chain \<open>loanValidation\<close>: one message for
  each field whose validator fails, in the order of the chain.
\<close>

definition loanValidation :: "Validator \<Rightarrow> ApplyBody \<Rightarrow> string list" where
  "loanValidation V b =
     (if 2 \<le> length (trim (body_applicantName b)) then []
      else [''Applicant name must be at least 2 characters'']) @
     (if isEmail V (body_email b) then [] else [''Valid email is required'']) @
     (if 10 \<le> length (trim (body_phoneNumber b)) then []
      else [''Valid phone number is required'']) @
     (if isFloat 1000 (Some 10000000) (body_loanAmount b) then []
      else [''Loan amount must be between 1,000 and 10,000,000'']) @
     (if 5 \<le> length (trim (body_loanPurpose b)) then []
      else [''Loan purpose must be at least 5 characters'']) @
     (if body_employmentStatus b \<in> set employment_enum then []
      else [''Invalid employment status'']) @
     (if isFloat 0 None (body_monthlyIncome b) then []
      else [''Monthly income must be a positive number''])"

text \<open>The sanitizers of the chain (\<open>trim\<close>, \<open>normalizeEmail\<close>) rewrite the body.\<close>

definition sanitize :: "Validator \<Rightarrow> ApplyBody \<Rightarrow> ApplyBody" where
  "sanitize V b =
     b\<lparr> body_applicantName := trim (body_applicantName b),
        body_email := normalizeEmail V (body_email b),
        body_phoneNumber := trim (body_phoneNumber b),
        body_loanPurpose := trim (body_loanPurpose b) \<rparr>"

text \<open>
  \<open>Loan.findOne({ email, status: { $in: [...] } })\<close>. The filter is cast by the schema,
  so the email is compared after the schema's setters.
\<close>

definition Loan_findOne_email_status :: "string \<Rightarrow> string list \<Rightarrow> Loan list \<Rightarrow> Loan option" where
  "Loan_findOne_email_status e sts loans =
     List.find (\<lambda>l. email l = email_setter e \<and> status_str (status l) \<in> set sts) loans"

text \<open>
  The validators of \<open>loanSchema\<close>, run by \<open>save()\<close>: \<open>required\<close> (a required string
  must not be empty), \<open>min\<close>, \<open>max\<close> and \<open>enum\<close>.
\<close>

definition schema_valid :: "Loan \<Rightarrow> bool" where
  "schema_valid l =
     (applicantName l \<noteq> [] \<and> email l \<noteq> [] \<and> phoneNumber l \<noteq> [] \<and>
      1000 \<le> loanAmount l \<and> loanAmount l \<le> 10000000 \<and>
      loanPurpose l \<noteq> [] \<and>
      employmentStatus l \<in> set employment_enum \<and>
      0 \<le> monthlyIncome l \<and>
      (case creditScore l of None \<Rightarrow> True | Some c \<Rightarrow> 300 \<le> c \<and> c \<le> 850))"

text \<open>
  The schema's cast of an optional \<open>Number\<close> path: \<open>None\<close> is the cast error that
  makes \<open>save()\<close> throw, \<open>Some None\<close> a path with no value.
\<close>

definition cast_optional_Number :: "NumberField \<Rightarrow> rat option option" where
  "cast_optional_Number v =
     (case v of Absent \<Rightarrow> Some None | NotNumeric \<Rightarrow> None | Numeric x \<Rightarrow> Some (Some x))"

text \<open>
  \<open>new Loan({...})\<close> followed by \<open>save()\<close>: the document built from the body with the
  schema's setters and defaults (\<open>status\<close> defaults to pending, the two timestamps are
  the time of the save), or \<open>None\<close> when \<open>save()\<close> throws: a required number is
  missing, a number cannot be cast, or a validator of the schema fails.
\<close>

definition Loan_new_save :: "ObjectId \<Rightarrow> Date \<Rightarrow> ApplyBody \<Rightarrow> Loan option" where
  "Loan_new_save i now b =
     (case (body_loanAmount b, body_monthlyIncome b, cast_optional_Number (body_creditScore b)) of
        (Some amount, Some income, Some score) \<Rightarrow>
          (let doc = \<lparr> loan_id = i,
                       applicantName = trim (body_applicantName b),
                       email = email_setter (body_email b),
                       phoneNumber = trim (body_phoneNumber b),
                       loanAmount = amount,
                       loanPurpose = trim (body_loanPurpose b),
                       employmentStatus = body_employmentStatus b,
                       monthlyIncome = income,
                       creditScore = score,
                       status = Pending,
                       verifiedBy = None, approvedBy = None,
                       verificationDate = None, approvalDate = None,
                       rejectionReason = None,
                       documents = (case body_documents b of
                                      None \<Rightarrow> \<lparr> idProof = None, incomeProof = None, addressProof = None \<rparr>
                                    | Some d \<Rightarrow> d),
                       createdAt = now, updatedAt = now \<rparr>
           in if schema_valid doc then Some doc else None)
      | _ \<Rightarrow> None)"

text \<open>
  The identifier that \<open>new Loan\<close> generates is new to the collection; the model takes
  the successor of the largest identifier in use.
\<close>

definition new_ObjectId :: "Loan list \<Rightarrow> ObjectId" where
  "new_ObjectId loans = Suc (fold max (map loan_id loans) 0)"

definition apply_handler :: "Validator \<Rightarrow> Date \<Rightarrow> ApplyBody \<Rightarrow> Loan list \<Rightarrow> Response \<times> Loan list" where
  "apply_handler V now b loans =
     (let errors = loanValidation V b in
      if errors \<noteq> []
      then (\<lparr> code = 400, success = False, message = Some ''Validation failed'',
               payload = ValidationErrors errors \<rparr>, loans)
      else
        (let body = sanitize V b in
         case Loan_findOne_email_status (body_email body) [''pending'', ''verified''] loans of
           Some existingApplication \<Rightarrow>
             (failure 400 ''You already have a pending loan application'', loans)
         | None \<Rightarrow>
            (case Loan_new_save (new_ObjectId loans) now body of
               None \<Rightarrow> (failure 500 ''Server error during loan application'', loans)
             | Some loan \<Rightarrow>
                 (\<lparr> code = 201, success = True,
                    message = Some ''Loan application submitted successfully'',
                    payload = Application (loan_id loan) (status loan) \<rparr>,
                  loans @ [loan]))))"

section \<open>Reading loans: GET /api/loans and GET /api/loans/:id\<close>

text \<open>
  The filter object \<open>query\<close> of the list route: an optional \<open>status\<close> and an optional
  \<open>$or\<close> of three case-insensitive regular-expression matches on one pattern.
\<close>

record LoanQuery =
  q_status :: "string option"
  q_or :: "string option"

definition truthy :: "string option \<Rightarrow> bool" where
  "truthy v = (\<not> falsy v)"

definition build_query :: "Identity \<Rightarrow> string option \<Rightarrow> string option \<Rightarrow> LoanQuery" where
  "build_query user status_param search =
     (let query = \<lparr> q_status = None, q_or = None \<rparr>;
          query = (if truthy status_param \<and> status_param \<noteq> Some ''all''
                   then query\<lparr> q_status := status_param \<rparr> else query);
          query = (if truthy search then query\<lparr> q_or := search \<rparr> else query);
          query = (if role_str (role user) = ''verifier''
                   then query\<lparr> q_status := Some ''pending'' \<rparr> else query)
      in query)"

text \<open>
  \<open>regex_i pattern subject\<close> stands for the store's \<open>{ $regex: pattern, $options: 'i' }\<close>.
\<close>

definition matches_query :: "(string \<Rightarrow> string \<Rightarrow> bool) \<Rightarrow> LoanQuery \<Rightarrow> Loan \<Rightarrow> bool" where
  "matches_query regex_i q l =
     ((case q_status q of None \<Rightarrow> True | Some s \<Rightarrow> status_str (status l) = s) \<and>
      (case q_or q of
         None \<Rightarrow> True
       | Some p \<Rightarrow> regex_i p (applicantName l) \<or> regex_i p (email l) \<or> regex_i p (phoneNumber l)))"

text \<open>
  \<open>.sort({ createdAt: -1 }).skip(skip).limit(limitNum)\<close>: newest first; a limit of zero
  is no limit and a negative limit counts as its absolute value.
\<close>

definition sort_skip_limit :: "int \<Rightarrow> int \<Rightarrow> Loan list \<Rightarrow> Loan list" where
  "sort_skip_limit skip limitNum ls =
     (let sorted_desc = rev (sort_key createdAt ls);
          rest = drop (nat skip) sorted_desc
      in if limitNum = 0 then rest else take (nat \<bar>limitNum\<bar>) rest)"

text \<open>
  The list route. \<open>pageNum\<close> and \<open>limitNum\<close> are the results of \<open>parseInt\<close> on the
  query parameters, taken here to be integers. The store refuses a negative \<open>skip\<close>, and
  the route then answers 500 from its \<open>catch\<close> block.
\<close>

definition get_loans_handler ::
  "(string \<Rightarrow> string \<Rightarrow> bool) \<Rightarrow> Identity \<Rightarrow> string option \<Rightarrow> string option \<Rightarrow> int \<Rightarrow> int
     \<Rightarrow> User list \<Rightarrow> Loan list \<Rightarrow> Response" where
  "get_loans_handler regex_i user status_param search pageNum limitNum users loans =
     (let skip = (pageNum - 1) * limitNum;
          query = build_query user status_param search
      in if skip < 0 then failure 500 ''Server error while fetching loans''
         else
           (let found = sort_skip_limit skip limitNum (filter (matches_query regex_i query) loans);
                total = length (filter (matches_query regex_i query) loans)
            in \<lparr> code = 200, success = True, message = None,
                 payload = LoanList (map (populate_both users) found)
                             \<lparr> page = pageNum, limit = limitNum, total = total,
                               pages = (if limitNum = 0 then None
                                        else Some \<lceil>(of_nat total :: rat) / of_int limitNum\<rceil>) \<rparr> \<rparr>))"

definition get_loan_handler :: "Identity \<Rightarrow> IdParam \<Rightarrow> User list \<Rightarrow> Loan list \<Rightarrow> Response" where
  "get_loan_handler user idp users loans =
     (case idp of
        BadId \<Rightarrow> failure 500 ''Server error while fetching loan''
      | Oid i \<Rightarrow>
         (case Loan_findById i loans of
            None \<Rightarrow> failure 404 ''Loan not found''
          | Some loan \<Rightarrow>
              if role_str (role user) = ''verifier'' \<and> status loan \<noteq> Pending
              then failure 403 ''Access denied''
              else \<lparr> code = 200, success = True, message = None,
                     payload = LoanData (Some (populate_both users loan)) \<rparr>))"

text \<open>Both read routes are registered as \<open>authenticateToken, verifierOrAdmin, handler\<close>.\<close>

definition get_loans_endpoint ::
  "(string \<Rightarrow> string \<Rightarrow> bool) \<Rightarrow> Env \<Rightarrow> string option \<Rightarrow> string option \<Rightarrow> string option \<Rightarrow> int \<Rightarrow> int
     \<Rightarrow> User list \<Rightarrow> Loan list \<Rightarrow> Response" where
  "get_loans_endpoint regex_i env authorization status_param search pageNum limitNum users loans =
     (case gate [''verifier'', ''admin''] env users authorization of
        Inl r \<Rightarrow> r
      | Inr user \<Rightarrow> get_loans_handler regex_i user status_param search pageNum limitNum users loans)"

definition get_loan_endpoint ::
  "Env \<Rightarrow> string option \<Rightarrow> IdParam \<Rightarrow> User list \<Rightarrow> Loan list \<Rightarrow> Response" where
  "get_loan_endpoint env authorization idp users loans =
     (case gate [''verifier'', ''admin''] env users authorization of
        Inl r \<Rightarrow> r
      | Inr user \<Rightarrow> get_loan_handler user idp users loans)"

section \<open>Dashboard: the status distribution of GET /api/dashboard/stats\<close>

text \<open>
  A JavaScript number as far as the percentage computation meets it: the two special
  values a division by zero produces, and finite values. The special values are those of
  the language. Arithmetic on finite values is exact here, where the route computes in
  binary floating point: a finite percentage of the model is the exact share rounded to a
  tenth, and its last digit can differ from the printed one when the exact share lies on
  a rounding tie (23 of 80 loans).
\<close>

datatype Number = NaN | Infinity | Finite rat

text \<open>\<open>a / b\<close> for two document counts: \<open>0 / 0\<close> is \<open>NaN\<close>, \<open>a / 0\<close> is \<open>Infinity\<close>.\<close>

definition js_divide :: "nat \<Rightarrow> nat \<Rightarrow> Number" where
  "js_divide a b =
     (if b = 0 then (if a = 0 then NaN else Infinity)
      else Finite (of_nat a / of_nat b))"

text \<open>\<open>x * 100\<close>.\<close>

definition js_times_100 :: "Number \<Rightarrow> Number" where
  "js_times_100 x =
     (case x of NaN \<Rightarrow> NaN | Infinity \<Rightarrow> Infinity | Finite r \<Rightarrow> Finite (r * 100))"

function decimal :: "nat \<Rightarrow> string" where
  "decimal n = (if n < 10 then [char_of (48 + n)] else decimal (n div 10) @ [char_of (48 + n mod 10)])"
  by pat_completeness auto
termination
  by (relation "measure id") auto

text \<open>
  The number of tenths that \<open>toFixed(1)\<close> prints for a finite value that is not
  negative: the integer \<open>n\<close> with \<open>n / 10\<close> nearest to the value, the larger one on a tie.
\<close>

definition tenths :: "rat \<Rightarrow> nat" where
  "tenths r = nat \<lfloor>r * 10 + 1 / 2\<rfloor>"

definition print_tenths :: "nat \<Rightarrow> string" where
  "print_tenths n = decimal (n div 10) @ ''.'' @ decimal (n mod 10)"

text \<open>
  \<open>Number.prototype.toFixed(1)\<close>: a value that is not finite prints as its name, a
  negative value prints as a minus sign and the digits of its absolute value. (A value
  of \<open>10\<^sup>2\<^sup>1\<close> or more prints in exponent notation; a percentage never is.)
\<close>

definition toFixed_1 :: "Number \<Rightarrow> string" where
  "toFixed_1 x =
     (case x of
        NaN \<Rightarrow> ''NaN''
      | Infinity \<Rightarrow> ''Infinity''
      | Finite r \<Rightarrow> (if r < 0 then ''-'' else []) @ print_tenths (tenths \<bar>r\<bar>))"

text \<open>\<open>Loan.countDocuments({ status: s })\<close> and \<open>Loan.countDocuments()\<close>.\<close>

definition countDocuments_status :: "string \<Rightarrow> Loan list \<Rightarrow> nat" where
  "countDocuments_status s loans = length (filter (\<lambda>l. status_str (status l) = s) loans)"

definition countDocuments :: "Loan list \<Rightarrow> nat" where
  "countDocuments loans = length loans"

definition share :: "string \<Rightarrow> nat \<Rightarrow> nat \<Rightarrow> StatusShare" where
  "share s count totalLoans =
     \<lparr> share_status = s, share_count = count,
       percentage = toFixed_1 (js_times_100 (js_divide count totalLoans)) \<rparr>"

definition statusDistribution :: "Loan list \<Rightarrow> StatusShare list" where
  "statusDistribution loans =
     (let totalLoans = countDocuments loans;
          pendingLoans = countDocuments_status ''pending'' loans;
          verifiedLoans = countDocuments_status ''verified'' loans;
          approvedLoans = countDocuments_status ''approved'' loans;
          rejectedLoans = countDocuments_status ''rejected'' loans
      in [share ''pending'' pendingLoans totalLoans,
          share ''verified'' verifiedLoans totalLoans,
          share ''approved'' approvedLoans totalLoans,
          share ''rejected'' rejectedLoans totalLoans])"

text \<open>
  The statistics route as far as the status distribution goes; the other parts of
  \<open>data\<close> (the overview, the user counts, the monthly trends) are aggregations that the
  distribution does not depend on. The route is behind \<open>authenticateToken\<close> alone.
\<close>

definition stats_handler :: "Loan list \<Rightarrow> Response" where
  "stats_handler loans =
     \<lparr> code = 200, success = True, message = None,
       payload = StatusDistribution (statusDistribution loans) \<rparr>"

definition stats_endpoint :: "Env \<Rightarrow> string option \<Rightarrow> User list \<Rightarrow> Loan list \<Rightarrow> Response" where
  "stats_endpoint env authorization users loans =
     (case authenticateToken env users authorization of
        Inl r \<Rightarrow> r
      | Inr user \<Rightarrow> stats_handler loans)"

section \<open>Sample data\<close>

text \<open>The two accounts and the first applications of the seed script.\<close>

definition seed_admin :: User where
  "seed_admin =
     \<lparr> user_id = 1, user_email = ''admin@creditsea.com'', role = Admin,
       user_name = ''System Administrator'', isActive = True,
       user_createdAt = 0, user_updatedAt = 0, password = ''$2a$12$adminhash'' \<rparr>"

definition seed_verifier :: User where
  "seed_verifier =
     \<lparr> user_id = 2, user_email = ''verifier@creditsea.com'', role = Verifier,
       user_name = ''Loan Verifier'', isActive = True,
       user_createdAt = 0, user_updatedAt = 0, password = ''$2a$12$verifierhash'' \<rparr>"

definition seed_users :: "User list" where
  "seed_users = [seed_admin, seed_verifier]"

definition no_documents :: Documents where
  "no_documents = \<lparr> idProof = None, incomeProof = None, addressProof = None \<rparr>"

definition loan_john :: Loan where
  "loan_john =
     \<lparr> loan_id = 10, applicantName = ''John Doe'', email = ''john.doe@example.com'',
       phoneNumber = ''+1234567890'', loanAmount = 50000, loanPurpose = ''Home renovation'',
       employmentStatus = ''employed'', monthlyIncome = 8000, creditScore = Some 720,
       status = Pending, verifiedBy = None, approvedBy = None, verificationDate = None,
       approvalDate = None, rejectionReason = None, documents = no_documents,
       createdAt = 100, updatedAt = 100 \<rparr>"

definition loan_jane :: Loan where
  "loan_jane =
     \<lparr> loan_id = 11, applicantName = ''Jane Smith'', email = ''jane.smith@example.com'',
       phoneNumber = ''+1234567891'', loanAmount = 25000, loanPurpose = ''Education'',
       employmentStatus = ''employed'', monthlyIncome = 6000, creditScore = Some 680,
       status = Verified, verifiedBy = Some 2, approvedBy = None, verificationDate = Some 150,
       approvalDate = None, rejectionReason = None, documents = no_documents,
       createdAt = 101, updatedAt = 150 \<rparr>"

definition loan_bob :: Loan where
  "loan_bob =
     \<lparr> loan_id = 12, applicantName = ''Bob Johnson'', email = ''bob.johnson@example.com'',
       phoneNumber = ''+1234567892'', loanAmount = 75000, loanPurpose = ''Business expansion'',
       employmentStatus = ''self-employed'', monthlyIncome = 12000, creditScore = Some 750,
       status = Approved, verifiedBy = Some 2, approvedBy = Some 1, verificationDate = Some 160,
       approvalDate = Some 170, rejectionReason = None, documents = no_documents,
       createdAt = 102, updatedAt = 170 \<rparr>"

definition seed_loans :: "Loan list" where
  "seed_loans = [loan_john, loan_jane, loan_bob]"

text \<open>A verifier account that an administrator has deactivated.\<close>

definition former_verifier :: User where
  "former_verifier =
     \<lparr> user_id = 3, user_email = ''former@creditsea.com'', role = Verifier,
       user_name = ''Former Verifier'', isActive = False,
       user_createdAt = 0, user_updatedAt = 50, password = ''$2a$12$formerhash'' \<rparr>"

definition users_with_former :: "User list" where
  "users_with_former = seed_users @ [former_verifier]"

text \<open>
  A token service for the examples: the token \<open>tok-admin\<close> is the administrator's,
  \<open>tok-verifier\<close> the verifier's, \<open>tok-former\<close> the deactivated verifier's,
  \<open>tok-ghost\<close> is a valid token for an identifier that no user has, and every other
  token fails verification.
\<close>

definition sample_env :: Env where
  "sample_env =
     \<lparr> jwt_verify = (\<lambda>token secret.
          if token = ''tok-admin'' then Some (Oid 1)
          else if token = ''tok-verifier'' then Some (Oid 2)
          else if token = ''tok-former'' then Some (Oid 3)
          else if token = ''tok-ghost'' then Some (Oid 77)
          else None),
       JWT_SECRET = Some ''secret'' \<rparr>"

section \<open>The loan collection over requests handled one after another\<close>




text \<open>
  A validator for the examples (an address is accepted when it has an \<open>@\<close>, and is
  normalised to lower case) and two submissions: one from the address of the verified
  loan 11, one from the address of the approved loan 12.
\<close>

definition sample_validator :: Validator where
  "sample_validator = \<lparr> isEmail = (\<lambda>s. CHR ''@'' \<in> set s), normalizeEmail = toLowerCase \<rparr>"

definition body_jane :: ApplyBody where
  "body_jane =
     \<lparr> body_applicantName = ''Jane Smith'', body_email = ''Jane.Smith@example.com'',
       body_phoneNumber = ''+1234567891'', body_loanAmount = Some 5000,
       body_loanPurpose = ''A second loan'', body_employmentStatus = ''employed'',
       body_monthlyIncome = Some 6000, body_creditScore = Numeric 680, body_documents = None \<rparr>"

definition body_bob :: ApplyBody where
  "body_bob =
     \<lparr> body_applicantName = ''Bob Johnson'', body_email = ''bob.johnson@example.com'',
       body_phoneNumber = ''+1234567892'', body_loanAmount = Some 5000,
       body_loanPurpose = ''New equipment'', body_employmentStatus = ''self-employed'',
       body_monthlyIncome = Some 12000, body_creditScore = Absent, body_documents = None \<rparr>"

section \<open>Properties of the collection operations\<close>

lemma find_Some_member:
  "List.find P xs = Some x \<Longrightarrow> x \<in> set xs \<and> P x"
  by (induction xs) (auto split: if_splits)

lemma Loan_findById_Some:
  "Loan_findById i loans = Some l \<Longrightarrow> l \<in> set loans \<and> loan_id l = i"
  unfolding Loan_findById_def by (rule find_Some_member)

lemma User_findById_Some:
  "User_findById i users = Some u \<Longrightarrow> u \<in> set users \<and> user_id u = i"
  unfolding User_findById_def by (rule find_Some_member)

text \<open>
  The write of \<open>findByIdAndUpdate\<close> lands on the document that \<open>findById\<close> returns and
  on no other position of the collection.
\<close>

lemma update_first_is_list_update:
  "Loan_findById i loans = Some l \<Longrightarrow>
     \<exists>k < length loans. loans ! k = l \<and> update_first i f loans = loans[k := f l]"
  unfolding Loan_findById_def
proof (induction loans)
  case Nil
  then show ?case by simp
next
  case (Cons a loans)
  show ?case
  proof (cases "loan_id a = i")
    case True
    with Cons.prems have "a = l" by simp
    with True have "(a # loans) ! 0 = l \<and> update_first i f (a # loans) = (a # loans)[0 := f l]"
      by simp
    then show ?thesis by blast
  next
    case False
    with Cons.prems have "List.find (\<lambda>l. loan_id l = i) loans = Some l" by simp
    from Cons.IH[OF this] obtain k where k: "k < length loans" "loans ! k = l"
      "update_first i f loans = loans[k := f l]" by blast
    with False have "Suc k < length (a # loans) \<and> (a # loans) ! Suc k = l \<and>
        update_first i f (a # loans) = (a # loans)[Suc k := f l]" by simp
    then show ?thesis by blast
  qed
qed

lemma update_first_absent:
  "Loan_findById i loans = None \<Longrightarrow> update_first i f loans = loans"
  unfolding Loan_findById_def
  by (induction loans) (auto split: if_splits)

section \<open>The branches of the two transition handlers\<close>

lemma verify_handler_bad_action:
  "\<not> array_includes [''verify'', ''reject''] action \<Longrightarrow>
     verify_handler user action reason idp now users loans =
       (failure 400 msg_bad_action_verify, loans)"
  by (auto simp: verify_handler_def)

lemma verify_handler_no_reason:
  "action = Some ''reject'' \<Longrightarrow> falsy reason \<Longrightarrow>
     verify_handler user action reason idp now users loans =
       (failure 400 ''Rejection reason is required'', loans)"
  by (simp add: verify_handler_def array_includes_def)

lemma verify_handler_bad_id:
  "array_includes [''verify'', ''reject''] action \<Longrightarrow> \<not> (action = Some ''reject'' \<and> falsy reason) \<Longrightarrow>
     verify_handler user action reason BadId now users loans =
       (failure 500 ''Server error during loan verification'', loans)"
  by (auto simp: verify_handler_def)

lemma verify_handler_not_found:
  "array_includes [''verify'', ''reject''] action \<Longrightarrow> \<not> (action = Some ''reject'' \<and> falsy reason) \<Longrightarrow>
   Loan_findById i loans = None \<Longrightarrow>
     verify_handler user action reason (Oid i) now users loans = (failure 404 ''Loan not found'', loans)"
  by (auto simp: verify_handler_def)


lemma verify_handler_success:
  "array_includes [''verify'', ''reject''] action \<Longrightarrow> \<not> (action = Some ''reject'' \<and> falsy reason) \<Longrightarrow>
   Loan_findById i loans = Some l \<Longrightarrow> status l = Pending \<Longrightarrow>
     verify_handler user action reason (Oid i) now users loans =
       (\<lparr> code = 200, success = True,
          message = Some (''Loan '' @ (if action = Some ''verify'' then ''verified'' else ''rejected'')
                           @ '' successfully''),
          payload = LoanData (Some (verify_view users
                      (apply_update (verify_updateData user action reason now) now l))) \<rparr>,
        update_first i (apply_update (verify_updateData user action reason now) now) loans)"
  by (auto simp: verify_handler_def Loan_findByIdAndUpdate_def)

lemma approve_handler_bad_action:
  "\<not> array_includes [''approve'', ''reject''] action \<Longrightarrow>
     approve_handler user action reason idp now users loans =
       (failure 400 msg_bad_action_approve, loans)"
  by (auto simp: approve_handler_def)

lemma approve_handler_no_reason:
  "action = Some ''reject'' \<Longrightarrow> falsy reason \<Longrightarrow>
     approve_handler user action reason idp now users loans =
       (failure 400 ''Rejection reason is required'', loans)"
  by (simp add: approve_handler_def array_includes_def)

lemma approve_handler_bad_id:
  "array_includes [''approve'', ''reject''] action \<Longrightarrow> \<not> (action = Some ''reject'' \<and> falsy reason) \<Longrightarrow>
     approve_handler user action reason BadId now users loans =
       (failure 500 ''Server error during loan approval'', loans)"
  by (auto simp: approve_handler_def)

lemma approve_handler_not_found:
  "array_includes [''approve'', ''reject''] action \<Longrightarrow> \<not> (action = Some ''reject'' \<and> falsy reason) \<Longrightarrow>
   Loan_findById i loans = None \<Longrightarrow>
     approve_handler user action reason (Oid i) now users loans = (failure 404 ''Loan not found'', loans)"
  by (auto simp: approve_handler_def)


lemma approve_handler_success:
  "array_includes [''approve'', ''reject''] action \<Longrightarrow> \<not> (action = Some ''reject'' \<and> falsy reason) \<Longrightarrow>
   Loan_findById i loans = Some l \<Longrightarrow> status l = Verified \<Longrightarrow>
     approve_handler user action reason (Oid i) now users loans =
       (\<lparr> code = 200, success = True,
          message = Some (''Loan '' @ (if action = Some ''approve'' then ''approved'' else ''rejected'')
                           @ '' successfully''),
          payload = LoanData (Some (populate_both users
                      (apply_update (approve_updateData user action reason now) now l))) \<rparr>,
        update_first i (apply_update (approve_updateData user action reason now) now) loans)"
  by (auto simp: approve_handler_def Loan_findByIdAndUpdate_def)

text \<open>
  Each handler either answers 200, and then the guards have all passed, or leaves the
  collection as it found it.
\<close>

lemma verify_handler_200:
  "code (fst (verify_handler user action reason idp now users loans)) = 200 \<Longrightarrow>
     array_includes [''verify'', ''reject''] action \<and> \<not> (action = Some ''reject'' \<and> falsy reason) \<and>
     (\<exists>i l. idp = Oid i \<and> Loan_findById i loans = Some l \<and> status l = Pending)"
  by (auto simp: verify_handler_def failure_def Loan_findByIdAndUpdate_def
           split: if_splits IdParam.splits option.splits)

lemma approve_handler_200:
  "code (fst (approve_handler user action reason idp now users loans)) = 200 \<Longrightarrow>
     array_includes [''approve'', ''reject''] action \<and> \<not> (action = Some ''reject'' \<and> falsy reason) \<and>
     (\<exists>i l. idp = Oid i \<and> Loan_findById i loans = Some l \<and> status l = Verified)"
  by (auto simp: approve_handler_def failure_def Loan_findByIdAndUpdate_def
           split: if_splits IdParam.splits option.splits)

lemma verify_handler_not_200:
  "code (fst (verify_handler user action reason idp now users loans)) \<noteq> 200 \<Longrightarrow>
     snd (verify_handler user action reason idp now users loans) = loans"
  by (auto simp: verify_handler_def failure_def Loan_findByIdAndUpdate_def
           split: if_splits IdParam.splits option.splits)

lemma approve_handler_not_200:
  "code (fst (approve_handler user action reason idp now users loans)) \<noteq> 200 \<Longrightarrow>
     snd (approve_handler user action reason idp now users loans) = loans"
  by (auto simp: approve_handler_def failure_def Loan_findByIdAndUpdate_def
           split: if_splits IdParam.splits option.splits)

section \<open>Body validation comes first\<close>

text \<open>
  C9. At both transition endpoints the body is validated before the store is read. A
  request whose action keyword is not one of the two legal verbs, or whose reject action
  has no rejection reason, is answered with the 400 validation error, whatever the
  identifier parameter is (malformed, unknown, or that of a loan in the wrong status),
  and the collection is not touched. Conversely the 404 answer and the 400 answer for a
  loan in the wrong status are only given to a request whose body is well formed.
\<close>

theorem validation_precedes_lookup:
  "(\<not> array_includes [''verify'', ''reject''] action \<or> (action = Some ''reject'' \<and> falsy reason) \<longrightarrow>
      verify_handler user action reason idp now users loans =
        (failure 400 (if \<not> array_includes [''verify'', ''reject''] action
                      then msg_bad_action_verify else ''Rejection reason is required''), loans)) \<and>
   (\<not> array_includes [''approve'', ''reject''] action \<or> (action = Some ''reject'' \<and> falsy reason) \<longrightarrow>
      approve_handler user action reason idp now users loans =
        (failure 400 (if \<not> array_includes [''approve'', ''reject''] action
                      then msg_bad_action_approve else ''Rejection reason is required''), loans)) \<and>
   (fst (verify_handler user action reason idp now users loans) = failure 404 ''Loan not found'' \<or>
    fst (verify_handler user action reason idp now users loans) =
      failure 400 ''Only pending loans can be verified or rejected'' \<longrightarrow>
      array_includes [''verify'', ''reject''] action \<and> \<not> (action = Some ''reject'' \<and> falsy reason)) \<and>
   (fst (approve_handler user action reason idp now users loans) = failure 404 ''Loan not found'' \<or>
    fst (approve_handler user action reason idp now users loans) =
      failure 400 ''Only verified loans can be approved or rejected'' \<longrightarrow>
      array_includes [''approve'', ''reject''] action \<and> \<not> (action = Some ''reject'' \<and> falsy reason))"
proof (intro conjI impI)
  assume "\<not> array_includes [''verify'', ''reject''] action \<or> (action = Some ''reject'' \<and> falsy reason)"
  then show "verify_handler user action reason idp now users loans =
        (failure 400 (if \<not> array_includes [''verify'', ''reject''] action
                      then msg_bad_action_verify else ''Rejection reason is required''), loans)"
    using verify_handler_bad_action verify_handler_no_reason by auto
next
  assume "\<not> array_includes [''approve'', ''reject''] action \<or> (action = Some ''reject'' \<and> falsy reason)"
  then show "approve_handler user action reason idp now users loans =
        (failure 400 (if \<not> array_includes [''approve'', ''reject''] action
                      then msg_bad_action_approve else ''Rejection reason is required''), loans)"
    using approve_handler_bad_action approve_handler_no_reason by auto
next
  assume a: "fst (verify_handler user action reason idp now users loans) = failure 404 ''Loan not found'' \<or>
    fst (verify_handler user action reason idp now users loans) =
      failure 400 ''Only pending loans can be verified or rejected''"
  show "array_includes [''verify'', ''reject''] action"
  proof (rule ccontr)
    assume "\<not> array_includes [''verify'', ''reject''] action"
    from verify_handler_bad_action[OF this] a show False
      by (simp add: failure_def msg_bad_action_verify_def)
  qed
next
  assume a: "fst (verify_handler user action reason idp now users loans) = failure 404 ''Loan not found'' \<or>
    fst (verify_handler user action reason idp now users loans) =
      failure 400 ''Only pending loans can be verified or rejected''"
  show "\<not> (action = Some ''reject'' \<and> falsy reason)"
  proof
    assume "action = Some ''reject'' \<and> falsy reason"
    then have "verify_handler user action reason idp now users loans =
       (failure 400 ''Rejection reason is required'', loans)"
      using verify_handler_no_reason by blast
    with a show False by (simp add: failure_def)
  qed
next
  assume a: "fst (approve_handler user action reason idp now users loans) = failure 404 ''Loan not found'' \<or>
    fst (approve_handler user action reason idp now users loans) =
      failure 400 ''Only verified loans can be approved or rejected''"
  show "array_includes [''approve'', ''reject''] action"
  proof (rule ccontr)
    assume "\<not> array_includes [''approve'', ''reject''] action"
    from approve_handler_bad_action[OF this] a show False
      by (simp add: failure_def msg_bad_action_approve_def)
  qed
next
  assume a: "fst (approve_handler user action reason idp now users loans) = failure 404 ''Loan not found'' \<or>
    fst (approve_handler user action reason idp now users loans) =
      failure 400 ''Only verified loans can be approved or rejected''"
  show "\<not> (action = Some ''reject'' \<and> falsy reason)"
  proof
    assume "action = Some ''reject'' \<and> falsy reason"
    then have "approve_handler user action reason idp now users loans =
       (failure 400 ''Rejection reason is required'', loans)"
      using approve_handler_no_reason by blast
    with a show False by (simp add: failure_def)
  qed
qed

text \<open>
  The verifier sends an unknown verb for an identifier that no loan has; the
  administrator rejects, without a reason, the pending loan 10, which is in the wrong
  status for the approve route: both get the validation error. The verifier's
  well-formed request for the unknown identifier gets 404.
\<close>

theorem validation_precedes_lookup_witness:
  "Loan_findById 99 seed_loans = None \<and>
   verify_handler (select_minus_password seed_verifier) (Some ''archive'') None (Oid 99) 200 seed_users seed_loans =
     (failure 400 msg_bad_action_verify, seed_loans) \<and>
   map_option status (Loan_findById 10 seed_loans) = Some Pending \<and>
   approve_handler (select_minus_password seed_admin) (Some ''reject'') None (Oid 10) 200 seed_users seed_loans =
     (failure 400 ''Rejection reason is required'', seed_loans) \<and>
   fst (verify_handler (select_minus_password seed_verifier) (Some ''verify'') None (Oid 99) 200 seed_users seed_loans) =
     failure 404 ''Loan not found'' \<and>
   fst (approve_handler (select_minus_password seed_admin) (Some ''approve'') None (Oid 10) 200 seed_users seed_loans) =
     failure 400 ''Only verified loans can be approved or rejected'' \<and>
   array_includes [''verify'', ''reject''] (Some ''verify'') \<and>
   array_includes [''approve'', ''reject''] (Some ''approve'')"
proof -
  have f: "Loan_findById 99 seed_loans = None"
    "map_option status (Loan_findById 10 seed_loans) = Some Pending"
    by code_simp+
  have h1: "\<not> array_includes [''verify'', ''reject''] (Some ''archive'') \<or>
            (Some ''archive'' = Some ''reject'' \<and> falsy None)"
    by (simp add: array_includes_def)
  have h2: "\<not> array_includes [''approve'', ''reject''] (Some ''reject'') \<or>
            (Some ''reject'' = Some ''reject'' \<and> falsy None)"
    by (simp add: falsy_def)
  have h3: "fst (verify_handler (select_minus_password seed_verifier) (Some ''verify'') None (Oid 99) 200 seed_users seed_loans) =
     failure 404 ''Loan not found''"
    by code_simp
  have h4: "fst (approve_handler (select_minus_password seed_admin) (Some ''approve'') None (Oid 10) 200 seed_users seed_loans) =
     failure 400 ''Only verified loans can be approved or rejected''"
    by code_simp
  note T = validation_precedes_lookup
  from h1 T[where action = "Some ''archive''" and reason = None and idp = "Oid 99"
             and user = "select_minus_password seed_verifier" and now = 200
             and users = seed_users and loans = seed_loans]
  have c1: "verify_handler (select_minus_password seed_verifier) (Some ''archive'') None (Oid 99) 200 seed_users seed_loans =
     (failure 400 msg_bad_action_verify, seed_loans)"
    by (simp add: array_includes_def)
  from h2 T[where action = "Some ''reject''" and reason = None and idp = "Oid 10"
             and user = "select_minus_password seed_admin" and now = 200
             and users = seed_users and loans = seed_loans]
  have c2: "approve_handler (select_minus_password seed_admin) (Some ''reject'') None (Oid 10) 200 seed_users seed_loans =
     (failure 400 ''Rejection reason is required'', seed_loans)"
    by (simp add: array_includes_def)
  from h3 T[where action = "Some ''verify''" and reason = None and idp = "Oid 99"
             and user = "select_minus_password seed_verifier" and now = 200
             and users = seed_users and loans = seed_loans]
  have c3: "array_includes [''verify'', ''reject''] (Some ''verify'')" by blast
  from h4 T[where action = "Some ''approve''" and reason = None and idp = "Oid 10"
             and user = "select_minus_password seed_admin" and now = 200
             and users = seed_users and loans = seed_loans]
  have c4: "array_includes [''approve'', ''reject''] (Some ''approve'')" by blast
  from f c1 c2 h3 h4 c3 c4 show ?thesis by blast
qed

section \<open>The gates in front of the handlers\<close>

lemma authenticateToken_Inl_codes:
  "authenticateToken env users authorization = Inl r \<Longrightarrow> code r = 401 \<or> code r = 403"
  by (auto simp: authenticateToken_def failure_def
           split: option.splits if_splits IdParam.splits)

lemma authorizeRole_codes:
  "authorizeRole roles req_user = Some r \<Longrightarrow> code r = 401 \<or> code r = 403"
  by (auto simp: authorizeRole_def failure_def split: option.splits if_splits)

lemma gate_Inl_codes:
  "gate roles env users authorization = Inl r \<Longrightarrow> code r = 401 \<or> code r = 403"
  by (auto simp: gate_def split: sum.splits option.splits
           dest: authenticateToken_Inl_codes authorizeRole_codes)

lemma verify_endpoint_denied:
  "gate [''verifier'', ''admin''] env users authorization = Inl r \<Longrightarrow>
     verify_endpoint env authorization action reason idp now users loans = (r, loans)"
  by (simp add: verify_endpoint_def)

lemma verify_endpoint_granted:
  "gate [''verifier'', ''admin''] env users authorization = Inr user \<Longrightarrow>
     verify_endpoint env authorization action reason idp now users loans =
       verify_handler user action reason idp now users loans"
  by (simp add: verify_endpoint_def)

lemma approve_endpoint_denied:
  "gate [''admin''] env users authorization = Inl r \<Longrightarrow>
     approve_endpoint env authorization action reason idp now users loans = (r, loans)"
  by (simp add: approve_endpoint_def)

lemma approve_endpoint_granted:
  "gate [''admin''] env users authorization = Inr user \<Longrightarrow>
     approve_endpoint env authorization action reason idp now users loans =
       approve_handler user action reason idp now users loans"
  by (simp add: approve_endpoint_def)

lemma verify_endpoint_not_200:
  "code (fst (verify_endpoint env authorization action reason idp now users loans)) \<noteq> 200 \<Longrightarrow>
     snd (verify_endpoint env authorization action reason idp now users loans) = loans"
proof (cases "gate [''verifier'', ''admin''] env users authorization")
  case (Inl r)
  then show ?thesis by (simp add: verify_endpoint_denied)
next
  case (Inr user)
  assume "code (fst (verify_endpoint env authorization action reason idp now users loans)) \<noteq> 200"
  with Inr show ?thesis
    by (simp add: verify_endpoint_granted verify_handler_not_200)
qed

lemma approve_endpoint_not_200:
  "code (fst (approve_endpoint env authorization action reason idp now users loans)) \<noteq> 200 \<Longrightarrow>
     snd (approve_endpoint env authorization action reason idp now users loans) = loans"
proof (cases "gate [''admin''] env users authorization")
  case (Inl r)
  then show ?thesis by (simp add: approve_endpoint_denied)
next
  case (Inr user)
  assume "code (fst (approve_endpoint env authorization action reason idp now users loans)) \<noteq> 200"
  with Inr show ?thesis
    by (simp add: approve_endpoint_granted approve_handler_not_200)
qed

section \<open>Failure responses and the store\<close>

text \<open>
  C10. A request to the verify or the approve route that is answered with a failure
  (any status other than 200: an invalid action, a missing rejection reason, a malformed
  or unknown identifier, a loan in the wrong status, and also a refusal by the gates)
  leaves the loan collection exactly as it was. The one write is reached only after every
  guard of the handler has passed: if the collection differs after the request, the body
  was well formed and the loan was found in the source status of the route.
\<close>

theorem failure_leaves_store_unchanged:
  "(code (fst (verify_handler user action reason idp now users loans)) \<noteq> 200 \<longrightarrow>
      snd (verify_handler user action reason idp now users loans) = loans) \<and>
   (code (fst (approve_handler user action reason idp now users loans)) \<noteq> 200 \<longrightarrow>
      snd (approve_handler user action reason idp now users loans) = loans) \<and>
   (code (fst (verify_endpoint env authorization action reason idp now users loans)) \<noteq> 200 \<longrightarrow>
      snd (verify_endpoint env authorization action reason idp now users loans) = loans) \<and>
   (code (fst (approve_endpoint env authorization action reason idp now users loans)) \<noteq> 200 \<longrightarrow>
      snd (approve_endpoint env authorization action reason idp now users loans) = loans) \<and>
   (snd (verify_handler user action reason idp now users loans) \<noteq> loans \<longrightarrow>
      array_includes [''verify'', ''reject''] action \<and> \<not> (action = Some ''reject'' \<and> falsy reason) \<and>
      (\<exists>i l. idp = Oid i \<and> Loan_findById i loans = Some l \<and> status l = Pending)) \<and>
   (snd (approve_handler user action reason idp now users loans) \<noteq> loans \<longrightarrow>
      array_includes [''approve'', ''reject''] action \<and> \<not> (action = Some ''reject'' \<and> falsy reason) \<and>
      (\<exists>i l. idp = Oid i \<and> Loan_findById i loans = Some l \<and> status l = Verified))"
proof (intro conjI impI)
  assume "snd (verify_handler user action reason idp now users loans) \<noteq> loans"
  then have ok: "code (fst (verify_handler user action reason idp now users loans)) = 200"
    using verify_handler_not_200 by blast
  from verify_handler_200[OF ok]
  show "array_includes [''verify'', ''reject''] action"
    and "\<not> (action = Some ''reject'' \<and> falsy reason)"
    and "\<exists>i l. idp = Oid i \<and> Loan_findById i loans = Some l \<and> status l = Pending"
    by blast+
next
  assume "snd (approve_handler user action reason idp now users loans) \<noteq> loans"
  then have ok: "code (fst (approve_handler user action reason idp now users loans)) = 200"
    using approve_handler_not_200 by blast
  from approve_handler_200[OF ok]
  show "array_includes [''approve'', ''reject''] action"
    and "\<not> (action = Some ''reject'' \<and> falsy reason)"
    and "\<exists>i l. idp = Oid i \<and> Loan_findById i loans = Some l \<and> status l = Verified"
    by blast+
qed (simp_all add: verify_handler_not_200 approve_handler_not_200
       verify_endpoint_not_200 approve_endpoint_not_200)

text \<open>
  The four failures of the handler on the seed data (an unknown verb, a reject without a
  reason, an unknown identifier, the approved loan 12), a request with a token that does
  not verify, the verifier at the admin route, and the one request that writes: the
  verifier verifying the pending loan 10.
\<close>

theorem failure_leaves_store_unchanged_witness:
  "snd (verify_handler (select_minus_password seed_verifier) (Some ''archive'') None (Oid 10) 200 seed_users seed_loans) = seed_loans \<and>
   snd (approve_handler (select_minus_password seed_admin) (Some ''reject'') None (Oid 11) 200 seed_users seed_loans) = seed_loans \<and>
   snd (approve_handler (select_minus_password seed_admin) (Some ''approve'') None (Oid 99) 200 seed_users seed_loans) = seed_loans \<and>
   snd (verify_handler (select_minus_password seed_verifier) (Some ''verify'') None (Oid 12) 200 seed_users seed_loans) = seed_loans \<and>
   snd (verify_endpoint sample_env (Some ''Bearer forged'') (Some ''verify'') None (Oid 10) 200 seed_users seed_loans) = seed_loans \<and>
   snd (approve_endpoint sample_env (Some ''Bearer tok-verifier'') (Some ''approve'') None (Oid 11) 200 seed_users seed_loans) = seed_loans \<and>
   snd (verify_handler (select_minus_password seed_verifier) (Some ''verify'') None (Oid 10) 200 seed_users seed_loans) \<noteq> seed_loans \<and>
   snd (approve_handler (select_minus_password seed_admin) (Some ''approve'') None (Oid 11) 200 seed_users seed_loans) \<noteq> seed_loans \<and>
   map_option status (Loan_findById 10 seed_loans) = Some Pending \<and>
   map_option status (Loan_findById 11 seed_loans) = Some Verified"
proof -
  note T = failure_leaves_store_unchanged
  have "code (fst (verify_handler (select_minus_password seed_verifier) (Some ''archive'') None (Oid 10) 200 seed_users seed_loans)) \<noteq> 200"
    by code_simp
  with T[where user = "select_minus_password seed_verifier" and action = "Some ''archive''"
           and reason = None and idp = "Oid 10" and now = 200 and users = seed_users and loans = seed_loans]
  have c1: "snd (verify_handler (select_minus_password seed_verifier) (Some ''archive'') None (Oid 10) 200 seed_users seed_loans) = seed_loans"
    by blast
  have "code (fst (approve_handler (select_minus_password seed_admin) (Some ''reject'') None (Oid 11) 200 seed_users seed_loans)) \<noteq> 200"
    by code_simp
  with T[where user = "select_minus_password seed_admin" and action = "Some ''reject''"
           and reason = None and idp = "Oid 11" and now = 200 and users = seed_users and loans = seed_loans]
  have c2: "snd (approve_handler (select_minus_password seed_admin) (Some ''reject'') None (Oid 11) 200 seed_users seed_loans) = seed_loans"
    by blast
  have "code (fst (approve_handler (select_minus_password seed_admin) (Some ''approve'') None (Oid 99) 200 seed_users seed_loans)) \<noteq> 200"
    by code_simp
  with T[where user = "select_minus_password seed_admin" and action = "Some ''approve''"
           and reason = None and idp = "Oid 99" and now = 200 and users = seed_users and loans = seed_loans]
  have c3: "snd (approve_handler (select_minus_password seed_admin) (Some ''approve'') None (Oid 99) 200 seed_users seed_loans) = seed_loans"
    by blast
  have "code (fst (verify_handler (select_minus_password seed_verifier) (Some ''verify'') None (Oid 12) 200 seed_users seed_loans)) \<noteq> 200"
    by code_simp
  with T[where user = "select_minus_password seed_verifier" and action = "Some ''verify''"
           and reason = None and idp = "Oid 12" and now = 200 and users = seed_users and loans = seed_loans]
  have c4: "snd (verify_handler (select_minus_password seed_verifier) (Some ''verify'') None (Oid 12) 200 seed_users seed_loans) = seed_loans"
    by blast
  have "code (fst (verify_endpoint sample_env (Some ''Bearer forged'') (Some ''verify'') None (Oid 10) 200 seed_users seed_loans)) \<noteq> 200"
    by code_simp
  with T[where env = sample_env and authorization = "Some ''Bearer forged''" and action = "Some ''verify''"
           and reason = None and idp = "Oid 10" and now = 200 and users = seed_users and loans = seed_loans]
  have c5: "snd (verify_endpoint sample_env (Some ''Bearer forged'') (Some ''verify'') None (Oid 10) 200 seed_users seed_loans) = seed_loans"
    by blast
  have "code (fst (approve_endpoint sample_env (Some ''Bearer tok-verifier'') (Some ''approve'') None (Oid 11) 200 seed_users seed_loans)) \<noteq> 200"
    by code_simp
  with T[where env = sample_env and authorization = "Some ''Bearer tok-verifier''" and action = "Some ''approve''"
           and reason = None and idp = "Oid 11" and now = 200 and users = seed_users and loans = seed_loans]
  have c6: "snd (approve_endpoint sample_env (Some ''Bearer tok-verifier'') (Some ''approve'') None (Oid 11) 200 seed_users seed_loans) = seed_loans"
    by blast
  have c7: "snd (verify_handler (select_minus_password seed_verifier) (Some ''verify'') None (Oid 10) 200 seed_users seed_loans) \<noteq> seed_loans"
    by code_simp
  have c8: "snd (approve_handler (select_minus_password seed_admin) (Some ''approve'') None (Oid 11) 200 seed_users seed_loans) \<noteq> seed_loans"
    by code_simp
  from c7 T[where user = "select_minus_password seed_verifier" and action = "Some ''verify''"
           and reason = None and idp = "Oid 10" and now = 200 and users = seed_users and loans = seed_loans]
  have c9: "map_option status (Loan_findById 10 seed_loans) = Some Pending" by auto
  from c8 T[where user = "select_minus_password seed_admin" and action = "Some ''approve''"
           and reason = None and idp = "Oid 11" and now = 200 and users = seed_users and loans = seed_loans]
  have c10: "map_option status (Loan_findById 11 seed_loans) = Some Verified" by auto
  from c1 c2 c3 c4 c5 c6 c7 c8 c9 c10 show ?thesis by blast
qed

section \<open>A reject needs a reason\<close>

text \<open>
  C3, as the code has it. A reject action without a rejection reason (the field absent, or
  empty) is answered with the 400 validation error by the handler of the verify route and
  by the handler of the approve route, whoever the caller is and whatever loan the
  identifier names, and the collection is not modified. At the verify endpoint this is
  the answer for every authenticated caller, verifier or administrator. At the admin
  approve endpoint it is the answer for an administrator; a verifier is refused there
  with 403 by the role gate, before the body is looked at. The collection is not
  modified for any caller at either endpoint.
\<close>

theorem reject_requires_reason:
  "falsy reason \<longrightarrow>
     verify_handler user (Some ''reject'') reason idp now users loans =
       (failure 400 ''Rejection reason is required'', loans) \<and>
     approve_handler user (Some ''reject'') reason idp now users loans =
       (failure 400 ''Rejection reason is required'', loans) \<and>
     (gate [''verifier'', ''admin''] env users authorization = Inr user \<longrightarrow>
        verify_endpoint env authorization (Some ''reject'') reason idp now users loans =
          (failure 400 ''Rejection reason is required'', loans)) \<and>
     (gate [''admin''] env users authorization = Inr user \<longrightarrow>
        approve_endpoint env authorization (Some ''reject'') reason idp now users loans =
          (failure 400 ''Rejection reason is required'', loans)) \<and>
     (authenticateToken env users authorization = Inr user \<longrightarrow>
        verify_endpoint env authorization (Some ''reject'') reason idp now users loans =
          (failure 400 ''Rejection reason is required'', loans) \<and>
        (role user = Admin \<longrightarrow>
           approve_endpoint env authorization (Some ''reject'') reason idp now users loans =
             (failure 400 ''Rejection reason is required'', loans)) \<and>
        (role user = Verifier \<longrightarrow>
           approve_endpoint env authorization (Some ''reject'') reason idp now users loans =
             (failure 403 ''Insufficient permissions'', loans))) \<and>
     snd (verify_endpoint env authorization (Some ''reject'') reason idp now users loans) = loans \<and>
     snd (approve_endpoint env authorization (Some ''reject'') reason idp now users loans) = loans"
proof
  assume r: "falsy reason"
  have v: "\<And>u. verify_handler u (Some ''reject'') reason idp now users loans =
       (failure 400 ''Rejection reason is required'', loans)"
    using r by (simp add: verify_handler_no_reason)
  have a: "\<And>u. approve_handler u (Some ''reject'') reason idp now users loans =
       (failure 400 ''Rejection reason is required'', loans)"
    using r by (simp add: approve_handler_no_reason)
  have ve: "snd (verify_endpoint env authorization (Some ''reject'') reason idp now users loans) = loans"
    by (cases "gate [''verifier'', ''admin''] env users authorization")
       (simp_all add: verify_endpoint_denied verify_endpoint_granted v)
  have ae: "snd (approve_endpoint env authorization (Some ''reject'') reason idp now users loans) = loans"
    by (cases "gate [''admin''] env users authorization")
       (simp_all add: approve_endpoint_denied approve_endpoint_granted a)
  have au: "authenticateToken env users authorization = Inr user \<longrightarrow>
        verify_endpoint env authorization (Some ''reject'') reason idp now users loans =
          (failure 400 ''Rejection reason is required'', loans) \<and>
        (role user = Admin \<longrightarrow>
           approve_endpoint env authorization (Some ''reject'') reason idp now users loans =
             (failure 400 ''Rejection reason is required'', loans)) \<and>
        (role user = Verifier \<longrightarrow>
           approve_endpoint env authorization (Some ''reject'') reason idp now users loans =
             (failure 403 ''Insufficient permissions'', loans))"
  proof
    assume t: "authenticateToken env users authorization = Inr user"
    have g1: "gate [''verifier'', ''admin''] env users authorization = Inr user"
      using t by (cases "role user") (simp_all add: gate_def authorizeRole_def)
    have g2: "role user = Admin \<longrightarrow> gate [''admin''] env users authorization = Inr user"
      using t by (simp add: gate_def authorizeRole_def)
    have g3: "role user = Verifier \<longrightarrow>
        gate [''admin''] env users authorization = Inl (failure 403 ''Insufficient permissions'')"
      using t by (simp add: gate_def authorizeRole_def)
    from g1 g2 g3 v a
    show "verify_endpoint env authorization (Some ''reject'') reason idp now users loans =
          (failure 400 ''Rejection reason is required'', loans) \<and>
        (role user = Admin \<longrightarrow>
           approve_endpoint env authorization (Some ''reject'') reason idp now users loans =
             (failure 400 ''Rejection reason is required'', loans)) \<and>
        (role user = Verifier \<longrightarrow>
           approve_endpoint env authorization (Some ''reject'') reason idp now users loans =
             (failure 403 ''Insufficient permissions'', loans))"
      by (simp add: verify_endpoint_granted approve_endpoint_granted approve_endpoint_denied)
  qed
  from v a ve ae au
  show "verify_handler user (Some ''reject'') reason idp now users loans =
       (failure 400 ''Rejection reason is required'', loans) \<and>
     approve_handler user (Some ''reject'') reason idp now users loans =
       (failure 400 ''Rejection reason is required'', loans) \<and>
     (gate [''verifier'', ''admin''] env users authorization = Inr user \<longrightarrow>
        verify_endpoint env authorization (Some ''reject'') reason idp now users loans =
          (failure 400 ''Rejection reason is required'', loans)) \<and>
     (gate [''admin''] env users authorization = Inr user \<longrightarrow>
        approve_endpoint env authorization (Some ''reject'') reason idp now users loans =
          (failure 400 ''Rejection reason is required'', loans)) \<and>
     (authenticateToken env users authorization = Inr user \<longrightarrow>
        verify_endpoint env authorization (Some ''reject'') reason idp now users loans =
          (failure 400 ''Rejection reason is required'', loans) \<and>
        (role user = Admin \<longrightarrow>
           approve_endpoint env authorization (Some ''reject'') reason idp now users loans =
             (failure 400 ''Rejection reason is required'', loans)) \<and>
        (role user = Verifier \<longrightarrow>
           approve_endpoint env authorization (Some ''reject'') reason idp now users loans =
             (failure 403 ''Insufficient permissions'', loans))) \<and>
     snd (verify_endpoint env authorization (Some ''reject'') reason idp now users loans) = loans \<and>
     snd (approve_endpoint env authorization (Some ''reject'') reason idp now users loans) = loans"
    by (simp add: verify_endpoint_granted approve_endpoint_granted)
qed

text \<open>
  The administrator, holding the token \<open>tok-admin\<close>, passes both gates and rejects the
  verified loan 11 without a reason at each endpoint. The verifier, holding
  \<open>tok-verifier\<close>, does the same: 400 at the verify endpoint, 403 at the admin approve
  endpoint.
\<close>

theorem reject_requires_reason_witness:
  "falsy None \<and>
   gate [''verifier'', ''admin''] sample_env seed_users (Some ''Bearer tok-admin'') =
     Inr (select_minus_password seed_admin) \<and>
   gate [''admin''] sample_env seed_users (Some ''Bearer tok-admin'') =
     Inr (select_minus_password seed_admin) \<and>
   verify_endpoint sample_env (Some ''Bearer tok-admin'') (Some ''reject'') None (Oid 11) 200 seed_users seed_loans =
     (failure 400 ''Rejection reason is required'', seed_loans) \<and>
   approve_endpoint sample_env (Some ''Bearer tok-admin'') (Some ''reject'') None (Oid 11) 200 seed_users seed_loans =
     (failure 400 ''Rejection reason is required'', seed_loans) \<and>
   authenticateToken sample_env seed_users (Some ''Bearer tok-verifier'') =
     Inr (select_minus_password seed_verifier) \<and>
   role (select_minus_password seed_verifier) = Verifier \<and>
   verify_endpoint sample_env (Some ''Bearer tok-verifier'') (Some ''reject'') None (Oid 11) 200 seed_users seed_loans =
     (failure 400 ''Rejection reason is required'', seed_loans) \<and>
   approve_endpoint sample_env (Some ''Bearer tok-verifier'') (Some ''reject'') None (Oid 11) 200 seed_users seed_loans =
     (failure 403 ''Insufficient permissions'', seed_loans)"
proof -
  have h: "falsy None" by (simp add: falsy_def)
  have g1: "gate [''verifier'', ''admin''] sample_env seed_users (Some ''Bearer tok-admin'') =
     Inr (select_minus_password seed_admin)"
    by code_simp
  have g2: "gate [''admin''] sample_env seed_users (Some ''Bearer tok-admin'') =
     Inr (select_minus_password seed_admin)"
    by code_simp
  have t: "authenticateToken sample_env seed_users (Some ''Bearer tok-verifier'') =
     Inr (select_minus_password seed_verifier)"
    by code_simp
  have rl: "role (select_minus_password seed_verifier) = Verifier"
    by code_simp
  from h g1 g2
    reject_requires_reason[where reason = None and env = sample_env and users = seed_users
      and authorization = "Some ''Bearer tok-admin''" and user = "select_minus_password seed_admin"
      and idp = "Oid 11" and now = 200 and loans = seed_loans]
  have c1: "verify_endpoint sample_env (Some ''Bearer tok-admin'') (Some ''reject'') None (Oid 11) 200 seed_users seed_loans =
     (failure 400 ''Rejection reason is required'', seed_loans)"
    and c2: "approve_endpoint sample_env (Some ''Bearer tok-admin'') (Some ''reject'') None (Oid 11) 200 seed_users seed_loans =
     (failure 400 ''Rejection reason is required'', seed_loans)"
    by blast+
  from h t rl
    reject_requires_reason[where reason = None and env = sample_env and users = seed_users
      and authorization = "Some ''Bearer tok-verifier''" and user = "select_minus_password seed_verifier"
      and idp = "Oid 11" and now = 200 and loans = seed_loans]
  have c3: "verify_endpoint sample_env (Some ''Bearer tok-verifier'') (Some ''reject'') None (Oid 11) 200 seed_users seed_loans =
     (failure 400 ''Rejection reason is required'', seed_loans)"
    and c4: "approve_endpoint sample_env (Some ''Bearer tok-verifier'') (Some ''reject'') None (Oid 11) 200 seed_users seed_loans =
     (failure 403 ''Insufficient permissions'', seed_loans)"
    by blast+
  from h g1 g2 c1 c2 t rl c3 c4 show ?thesis by (intro conjI)
qed

text \<open>
  The claim as the specification words it (the 400 validation error for every caller
  role at both endpoints) fails for a verifier at the admin approve endpoint: the
  verifier's token is valid, the body is a reject without a reason, and the answer is the
  403 of the role gate.
\<close>

theorem verifier_at_admin_route_counterexample:
  "falsy None \<and>
   role seed_verifier = Verifier \<and>
   authenticateToken sample_env seed_users (Some ''Bearer tok-verifier'') =
     Inr (select_minus_password seed_verifier) \<and>
   approve_endpoint sample_env (Some ''Bearer tok-verifier'') (Some ''reject'') None (Oid 11) 200
       seed_users seed_loans =
     (failure 403 ''Insufficient permissions'', seed_loans) \<and>
   code (failure 403 ''Insufficient permissions'') = 403"
  by code_simp

section \<open>What one request does to the collection\<close>







text \<open>A handler that is not interrupted is its first half followed by its second.\<close>

lemma verify_handler_halves:
  "verify_handler user action reason idp now users loans =
     (case verify_read user action reason idp now loans of
        Inl r \<Rightarrow> (r, loans)
      | Inr w \<Rightarrow> verify_write action users w now loans)"
  by (simp add: verify_handler_def verify_read_def verify_write_def
        split: IdParam.split option.split)

lemma approve_handler_halves:
  "approve_handler user action reason idp now users loans =
     (case approve_read user action reason idp now loans of
        Inl r \<Rightarrow> (r, loans)
      | Inr w \<Rightarrow> approve_write action users w now loans)"
  by (simp add: approve_handler_def approve_read_def approve_write_def
        split: IdParam.split option.split)

section \<open>The status of a loan\<close>




section \<open>Submission\<close>

lemma fold_max_ge: "a \<le> fold max xs (a::nat)"
proof (induction xs arbitrary: a)
  case Nil
  then show ?case by simp
next
  case (Cons x xs)
  have "a \<le> max x a" by simp
  also have "\<dots> \<le> fold max xs (max x a)" by (rule Cons.IH)
  finally show ?case by simp
qed

lemma fold_max_member: "x \<in> set xs \<Longrightarrow> x \<le> fold max xs (a::nat)"
proof (induction xs arbitrary: a)
  case Nil
  then show ?case by simp
next
  case (Cons y ys)
  show ?case
  proof (cases "x = y")
    case True
    have "x \<le> max y a" using True by simp
    also have "\<dots> \<le> fold max ys (max y a)" by (rule fold_max_ge)
    finally show ?thesis by simp
  next
    case False
    with Cons.prems have "x \<in> set ys" by simp
    from Cons.IH[OF this] show ?thesis by simp
  qed
qed

lemma dropWhile_fix: "xs = [] \<or> \<not> P (hd xs) \<Longrightarrow> dropWhile P xs = xs"
  by (cases xs) auto

lemma last_dropWhile_nonempty: "dropWhile P xs \<noteq> [] \<Longrightarrow> last (dropWhile P xs) = last xs"
  by (induction xs) (auto split: if_splits)

lemma trim_idem: "trim (trim s) = trim s"
proof -
  define d where "d = dropWhile is_space s"
  define e where "e = dropWhile is_space (rev d)"
  have t: "trim s = rev e" by (simp add: trim_def d_def e_def)
  have hd_d: "d = [] \<or> \<not> is_space (hd d)"
    unfolding d_def using hd_dropWhile[of is_space s] by blast
  have hd_e: "e = [] \<or> \<not> is_space (hd e)"
    unfolding e_def using hd_dropWhile[of is_space "rev d"] by blast
  have "rev e = [] \<or> \<not> is_space (hd (rev e))"
  proof (cases "e = []")
    case True
    then show ?thesis by simp
  next
    case False
    then have "last e = last (rev d)" unfolding e_def by (rule last_dropWhile_nonempty)
    moreover from False have "d \<noteq> []" unfolding e_def by auto
    ultimately have "last e = hd d" by (simp add: last_rev)
    with \<open>d \<noteq> []\<close> hd_d False show ?thesis by (simp add: hd_rev)
  qed
  then have 1: "dropWhile is_space (rev e) = rev e" by (rule dropWhile_fix)
  from hd_e have 2: "dropWhile is_space e = e" by (rule dropWhile_fix)
  show ?thesis unfolding t by (simp add: trim_def 1 2)
qed


lemma active_status:
  "status_str (status l) \<in> set [''pending'', ''verified''] \<longleftrightarrow>
     status l = Pending \<or> status l = Verified"
  by (cases "status l") simp_all

lemma findOne_active_None:
  "Loan_findOne_email_status e [''pending'', ''verified''] loans = None \<longleftrightarrow>
     \<not> (\<exists>l\<in>set loans. email l = email_setter e \<and> (status l = Pending \<or> status l = Verified))"
  unfolding Loan_findOne_email_status_def find_None_iff active_status by blast

lemma loanValidation_passes:
  "loanValidation V b = [] \<Longrightarrow>
     2 \<le> length (trim (body_applicantName b)) \<and> isEmail V (body_email b) \<and>
     10 \<le> length (trim (body_phoneNumber b)) \<and>
     isFloat 1000 (Some 10000000) (body_loanAmount b) \<and>
     5 \<le> length (trim (body_loanPurpose b)) \<and>
     body_employmentStatus b \<in> set employment_enum \<and>
     isFloat 0 None (body_monthlyIncome b)"
  by (simp add: loanValidation_def split: if_splits)

text \<open>
  A body that passes the chain passes the validators of the schema too, but for two
  checks that only the schema makes: the stored email is not empty, and a credit score,
  when there is one, lies between 300 and 850.
\<close>

lemma Loan_new_save_valid:
  assumes "loanValidation V b = []"
    and "email_setter (normalizeEmail V (body_email b)) \<noteq> []"
    and "case body_creditScore b of Absent \<Rightarrow> True | NotNumeric \<Rightarrow> False | Numeric c \<Rightarrow> 300 \<le> c \<and> c \<le> 850"
  shows "\<exists>loan. Loan_new_save i now (sanitize V b) = Some loan \<and> status loan = Pending \<and>
           loan_id loan = i \<and> email loan = email_setter (normalizeEmail V (body_email b))"
proof -
  from loanValidation_passes[OF assms(1)] obtain amount income where
    n: "body_loanAmount b = Some amount" "1000 \<le> amount" "amount \<le> 10000000"
       "body_monthlyIncome b = Some income" "0 \<le> income"
    and s: "2 \<le> length (trim (body_applicantName b))" "10 \<le> length (trim (body_phoneNumber b))"
       "5 \<le> length (trim (body_loanPurpose b))" "body_employmentStatus b \<in> set employment_enum"
    by (auto simp: isFloat_def split: option.splits)
  from s have ne: "trim (body_applicantName b) \<noteq> []" "trim (body_phoneNumber b) \<noteq> []"
    "trim (body_loanPurpose b) \<noteq> []" by auto
  with n s(4) assms(2,3) show ?thesis
    by (cases "body_creditScore b")
       (simp_all add: Loan_new_save_def sanitize_def schema_valid_def trim_idem Let_def
          cast_optional_Number_def)
qed

lemma new_ObjectId_fresh: "new_ObjectId loans \<notin> loan_id ` set loans"
proof
  assume "new_ObjectId loans \<in> loan_id ` set loans"
  then have "new_ObjectId loans \<in> set (map loan_id loans)" by simp
  from fold_max_member[OF this, of 0] show False by (simp add: new_ObjectId_def)
qed

text \<open>
  Two bodies that the chain or the schema refuses: a name of one letter between two
  no-break spaces is trimmed to one character and fails the chain (400); a credit score
  that is not a number passes the chain, which does not look at it, and makes \<open>save()\<close>
  throw (500). Neither creates a document.
\<close>

lemma no_break_space_name_refused:
  "loanValidation sample_validator (body_bob\<lparr> body_applicantName := [CHR 0xA0, CHR ''A'', CHR 0xA0] \<rparr>) =
     [''Applicant name must be at least 2 characters''] \<and>
   code (fst (apply_handler sample_validator 300
                (body_bob\<lparr> body_applicantName := [CHR 0xA0, CHR ''A'', CHR 0xA0] \<rparr>) seed_loans)) = 400 \<and>
   snd (apply_handler sample_validator 300
          (body_bob\<lparr> body_applicantName := [CHR 0xA0, CHR ''A'', CHR 0xA0] \<rparr>) seed_loans) = seed_loans"
  by code_simp

lemma non_numeric_credit_score_refused:
  "loanValidation sample_validator (body_bob\<lparr> body_creditScore := NotNumeric \<rparr>) = [] \<and>
   apply_handler sample_validator 300 (body_bob\<lparr> body_creditScore := NotNumeric \<rparr>) seed_loans =
     (failure 500 ''Server error during loan application'', seed_loans)"
  by code_simp

text \<open>
  C2. A submission from an email for which the collection holds a loan that is pending or
  verified is answered 400 and no document is created; when the body passes the
  validation chain the answer is the duplicate-application failure. When every loan
  stored for the email is approved or rejected, a valid submission (one that passes the
  chain and the validators of the schema: the stored email is not empty and a credit
  score, when there is one, is a number from 300 to 850) is answered 201 and the
  collection gains one document, under a new identifier, whose status is pending. The
  email of a submission is compared as it is stored: normalised by the chain and by the
  schema's setters.
\<close>

theorem duplicate_application:
  "((\<exists>l\<in>set loans. email l = email_setter (normalizeEmail V (body_email b)) \<and>
                    (status l = Pending \<or> status l = Verified)) \<longrightarrow>
      code (fst (apply_handler V now b loans)) = 400 \<and>
      snd (apply_handler V now b loans) = loans \<and>
      (loanValidation V b = [] \<longrightarrow>
         fst (apply_handler V now b loans) = failure 400 ''You already have a pending loan application'')) \<and>
   ((\<forall>l\<in>set loans. email l = email_setter (normalizeEmail V (body_email b)) \<longrightarrow>
                    status l = Approved \<or> status l = Rejected) \<and>
    loanValidation V b = [] \<and>
    email_setter (normalizeEmail V (body_email b)) \<noteq> [] \<and>
    (case body_creditScore b of Absent \<Rightarrow> True | NotNumeric \<Rightarrow> False | Numeric c \<Rightarrow> 300 \<le> c \<and> c \<le> 850) \<longrightarrow>
      (\<exists>loan. apply_handler V now b loans =
                 (\<lparr> code = 201, success = True,
                    message = Some ''Loan application submitted successfully'',
                    payload = Application (loan_id loan) Pending \<rparr>, loans @ [loan]) \<and>
              status loan = Pending \<and>
              email loan = email_setter (normalizeEmail V (body_email b)) \<and>
              loan_id loan \<notin> loan_id ` set loans))"
proof (intro conjI impI)
  assume "\<exists>l\<in>set loans. email l = email_setter (normalizeEmail V (body_email b)) \<and>
                    (status l = Pending \<or> status l = Verified)"
  then have "Loan_findOne_email_status (normalizeEmail V (body_email b)) [''pending'', ''verified''] loans \<noteq> None"
    by (simp add: findOne_active_None)
  then obtain x where
    x: "Loan_findOne_email_status (normalizeEmail V (body_email b)) [''pending'', ''verified''] loans = Some x"
    by blast
  then show "code (fst (apply_handler V now b loans)) = 400"
    by (simp add: apply_handler_def sanitize_def failure_def Let_def)
  from x show "snd (apply_handler V now b loans) = loans"
    by (simp add: apply_handler_def sanitize_def failure_def Let_def)
  assume "loanValidation V b = []"
  with x show "fst (apply_handler V now b loans) = failure 400 ''You already have a pending loan application''"
    by (simp add: apply_handler_def sanitize_def Let_def)
next
  assume a: "(\<forall>l\<in>set loans. email l = email_setter (normalizeEmail V (body_email b)) \<longrightarrow>
                    status l = Approved \<or> status l = Rejected) \<and>
    loanValidation V b = [] \<and>
    email_setter (normalizeEmail V (body_email b)) \<noteq> [] \<and>
    (case body_creditScore b of Absent \<Rightarrow> True | NotNumeric \<Rightarrow> False | Numeric c \<Rightarrow> 300 \<le> c \<and> c \<le> 850)"
  then have none: "Loan_findOne_email_status (normalizeEmail V (body_email b)) [''pending'', ''verified''] loans = None"
    unfolding findOne_active_None by auto
  from a Loan_new_save_valid[of V b "new_ObjectId loans" now] obtain loan where
    l: "Loan_new_save (new_ObjectId loans) now (sanitize V b) = Some loan" "status loan = Pending"
       "loan_id loan = new_ObjectId loans" "email loan = email_setter (normalizeEmail V (body_email b))"
    by blast
  from a none l have "apply_handler V now b loans =
                 (\<lparr> code = 201, success = True,
                    message = Some ''Loan application submitted successfully'',
                    payload = Application (loan_id loan) Pending \<rparr>, loans @ [loan])"
    by (simp add: apply_handler_def Let_def sanitize_def)
  with l new_ObjectId_fresh[of loans]
  show "\<exists>loan. apply_handler V now b loans =
                 (\<lparr> code = 201, success = True,
                    message = Some ''Loan application submitted successfully'',
                    payload = Application (loan_id loan) Pending \<rparr>, loans @ [loan]) \<and>
              status loan = Pending \<and>
              email loan = email_setter (normalizeEmail V (body_email b)) \<and>
              loan_id loan \<notin> loan_id ` set loans"
    by auto
qed

text \<open>
  The submission from Jane's address finds her verified loan 11 and is refused; the
  submission from Bob's address, whose only loan is approved, is accepted as loan 13.
\<close>

theorem duplicate_application_witness:
  "(\<exists>l\<in>set seed_loans. email l = email_setter (normalizeEmail sample_validator (body_email body_jane)) \<and>
                    (status l = Pending \<or> status l = Verified)) \<and>
   loanValidation sample_validator body_jane = [] \<and>
   apply_handler sample_validator 300 body_jane seed_loans =
     (failure 400 ''You already have a pending loan application'', seed_loans) \<and>
   map status (filter (\<lambda>l. email l = email_setter (normalizeEmail sample_validator (body_email body_bob)))
                 seed_loans) = [Approved] \<and>
   loanValidation sample_validator body_bob = [] \<and>
   (\<exists>loan. apply_handler sample_validator 300 body_bob seed_loans =
              (\<lparr> code = 201, success = True,
                 message = Some ''Loan application submitted successfully'',
                 payload = Application (loan_id loan) Pending \<rparr>, seed_loans @ [loan]) \<and>
            status loan = Pending)"
proof -
  note T = duplicate_application
  have j1: "\<exists>l\<in>set seed_loans. email l = email_setter (normalizeEmail sample_validator (body_email body_jane)) \<and>
                    (status l = Pending \<or> status l = Verified)"
    by code_simp
  have j2: "loanValidation sample_validator body_jane = []" by code_simp
  from j1 j2 T[where V = sample_validator and b = body_jane and loans = seed_loans and now = 300]
  have c1: "apply_handler sample_validator 300 body_jane seed_loans =
     (failure 400 ''You already have a pending loan application'', seed_loans)"
    by (simp add: prod_eq_iff)
  have b1: "\<forall>l\<in>set seed_loans. email l = email_setter (normalizeEmail sample_validator (body_email body_bob)) \<longrightarrow>
                    status l = Approved \<or> status l = Rejected"
    by code_simp
  have b2: "loanValidation sample_validator body_bob = []" by code_simp
  have b3: "email_setter (normalizeEmail sample_validator (body_email body_bob)) \<noteq> []" by code_simp
  have b4: "case body_creditScore body_bob of Absent \<Rightarrow> True | NotNumeric \<Rightarrow> False | Numeric c \<Rightarrow> 300 \<le> c \<and> c \<le> 850"
    by code_simp
  from b1 b2 b3 b4 T[where V = sample_validator and b = body_bob and loans = seed_loans and now = 300]
  have c2: "\<exists>loan. apply_handler sample_validator 300 body_bob seed_loans =
              (\<lparr> code = 201, success = True,
                 message = Some ''Loan application submitted successfully'',
                 payload = Application (loan_id loan) Pending \<rparr>, seed_loans @ [loan]) \<and>
            status loan = Pending"
    by blast
  have b0: "map status (filter (\<lambda>l. email l = email_setter (normalizeEmail sample_validator (body_email body_bob)))
                 seed_loans) = [Approved]"
    by code_simp
  from j1 j2 c1 b0 b2 c2 show ?thesis by blast
qed

section \<open>Status codes of the gates\<close>

lemma select_minus_password_fields:
  "user_id (select_minus_password u) = user_id u"
  "role (select_minus_password u) = role u"
  "user_name (select_minus_password u) = user_name u"
  "user_email (select_minus_password u) = user_email u"
  "isActive (select_minus_password u) = isActive u"
  by (simp_all add: select_minus_password_def Identity.truncate_def)

lemma gate_after_authenticateToken:
  "(authenticateToken env users authorization = Inl r \<longrightarrow>
      gate roles env users authorization = Inl r) \<and>
   (authenticateToken env users authorization = Inr user \<longrightarrow>
      gate roles env users authorization =
        (if role_str (role user) \<in> set roles then Inr user
         else Inl (failure 403 ''Insufficient permissions'')))"
  by (simp add: gate_def authorizeRole_def)

text \<open>
  C4, as the code has it. The gate answers 401 when the \<open>Authorization\<close> header carries
  no token (no header, an empty header, or no text after the first space) and when a
  token that verifies names a user that does not exist or is not active. It answers 403
  when a token is present and cannot be verified: \<open>jwt.verify\<close> throws on a malformed
  or expired token, the signing secret is not configured, or the identifier in the
  payload cannot be cast; every such throw ends in the \<open>catch\<close> block, which sends 403.
  It also answers 403 when the resolved identity's role is not among the roles the
  endpoint permits. Otherwise the request reaches the handler with the identity, stripped
  of its password. The gates give no other status.
\<close>

theorem gate_status_codes:
  "(falsy (bearer_token authorization) \<longrightarrow>
      authenticateToken env users authorization = Inl (failure 401 ''Access token required'')) \<and>
   (bearer_token authorization = Some token \<and> token \<noteq> [] \<and>
    (falsy (JWT_SECRET env) \<or>
     (\<exists>s. JWT_SECRET env = Some s \<and> (jwt_verify env token s = None \<or> jwt_verify env token s = Some BadId))) \<longrightarrow>
      authenticateToken env users authorization = Inl (failure 403 ''Invalid or expired token'')) \<and>
   (bearer_token authorization = Some token \<and> token \<noteq> [] \<and> JWT_SECRET env = Some secret \<and> secret \<noteq> [] \<and>
    jwt_verify env token secret = Some (Oid userId) \<and>
    (User_findById userId users = None \<or> (\<exists>u. User_findById userId users = Some u \<and> \<not> isActive u)) \<longrightarrow>
      authenticateToken env users authorization = Inl (failure 401 ''Invalid or inactive user'')) \<and>
   (bearer_token authorization = Some token \<and> token \<noteq> [] \<and> JWT_SECRET env = Some secret \<and> secret \<noteq> [] \<and>
    jwt_verify env token secret = Some (Oid userId) \<and>
    User_findById userId users = Some u \<and> isActive u \<longrightarrow>
      authenticateToken env users authorization = Inr (select_minus_password u) \<and>
      gate roles env users authorization =
        (if role_str (role u) \<in> set roles then Inr (select_minus_password u)
         else Inl (failure 403 ''Insufficient permissions''))) \<and>
   (authenticateToken env users authorization = Inl r \<longrightarrow>
      gate roles env users authorization = Inl r \<and> (code r = 401 \<or> code r = 403)) \<and>
   (gate roles env users authorization = Inl r \<longrightarrow> code r = 401 \<or> code r = 403)"
proof (intro conjI impI)
  assume "falsy (bearer_token authorization)"
  then show "authenticateToken env users authorization = Inl (failure 401 ''Access token required'')"
    by (auto simp: authenticateToken_def falsy_def split: option.splits)
next
  assume "bearer_token authorization = Some token \<and> token \<noteq> [] \<and>
    (falsy (JWT_SECRET env) \<or>
     (\<exists>s. JWT_SECRET env = Some s \<and> (jwt_verify env token s = None \<or> jwt_verify env token s = Some BadId)))"
  then show "authenticateToken env users authorization = Inl (failure 403 ''Invalid or expired token'')"
    by (auto simp: authenticateToken_def falsy_def split: option.splits)
next
  assume "bearer_token authorization = Some token \<and> token \<noteq> [] \<and> JWT_SECRET env = Some secret \<and> secret \<noteq> [] \<and>
    jwt_verify env token secret = Some (Oid userId) \<and>
    (User_findById userId users = None \<or> (\<exists>u. User_findById userId users = Some u \<and> \<not> isActive u))"
  then show "authenticateToken env users authorization = Inl (failure 401 ''Invalid or inactive user'')"
    by (auto simp: authenticateToken_def)
next
  assume a: "bearer_token authorization = Some token \<and> token \<noteq> [] \<and> JWT_SECRET env = Some secret \<and> secret \<noteq> [] \<and>
    jwt_verify env token secret = Some (Oid userId) \<and>
    User_findById userId users = Some u \<and> isActive u"
  then show g: "authenticateToken env users authorization = Inr (select_minus_password u)"
    by (simp add: authenticateToken_def)
  from g gate_after_authenticateToken[of env users authorization _ roles "select_minus_password u"]
  show "gate roles env users authorization =
        (if role_str (role u) \<in> set roles then Inr (select_minus_password u)
         else Inl (failure 403 ''Insufficient permissions''))"
    by (simp add: select_minus_password_fields)
next
  assume a: "authenticateToken env users authorization = Inl r"
  then show "gate roles env users authorization = Inl r"
    by (simp add: gate_def)
  from a show "code r = 401 \<or> code r = 403" by (rule authenticateToken_Inl_codes)
next
  assume "gate roles env users authorization = Inl r"
  then show "code r = 401 \<or> code r = 403" by (rule gate_Inl_codes)
qed

text \<open>
  The answers of the gate of the admin routes on the examples: 401 without a header, 403
  for a token that does not verify, 401 for the token of an unknown user and for the
  token of the deactivated verifier, 403 for the verifier, and the administrator passes.
\<close>

theorem gate_status_codes_witness:
  "gate [''admin''] sample_env users_with_former None = Inl (failure 401 ''Access token required'') \<and>
   gate [''admin''] sample_env users_with_former (Some ''Bearer not.a.jwt'') =
     Inl (failure 403 ''Invalid or expired token'') \<and>
   gate [''admin''] sample_env users_with_former (Some ''Bearer tok-ghost'') =
     Inl (failure 401 ''Invalid or inactive user'') \<and>
   gate [''admin''] sample_env users_with_former (Some ''Bearer tok-former'') =
     Inl (failure 401 ''Invalid or inactive user'') \<and>
   gate [''admin''] sample_env users_with_former (Some ''Bearer tok-verifier'') =
     Inl (failure 403 ''Insufficient permissions'') \<and>
   gate [''admin''] sample_env users_with_former (Some ''Bearer tok-admin'') =
     Inr (select_minus_password seed_admin)"
proof -
  note T = gate_status_codes
  have e: "JWT_SECRET sample_env = Some ''secret''" "''secret'' \<noteq> []"
    by (simp_all add: sample_env_def)
  have "falsy (bearer_token None)" by code_simp
  with T[where authorization = None and env = sample_env and users = users_with_former
           and roles = "[''admin'']" and r = "failure 401 ''Access token required''"]
  have c1: "gate [''admin''] sample_env users_with_former None = Inl (failure 401 ''Access token required'')"
    by blast
  have "bearer_token (Some ''Bearer not.a.jwt'') = Some ''not.a.jwt'' \<and> ''not.a.jwt'' \<noteq> [] \<and>
        (falsy (JWT_SECRET sample_env) \<or>
         (\<exists>s. JWT_SECRET sample_env = Some s \<and>
              (jwt_verify sample_env ''not.a.jwt'' s = None \<or> jwt_verify sample_env ''not.a.jwt'' s = Some BadId)))"
    by (simp add: sample_env_def bearer_token_def at_index_def)
  with T[where authorization = "Some ''Bearer not.a.jwt''" and token = "''not.a.jwt''" and env = sample_env
           and users = users_with_former and roles = "[''admin'']"
           and r = "failure 403 ''Invalid or expired token''"]
  have c2: "gate [''admin''] sample_env users_with_former (Some ''Bearer not.a.jwt'') =
     Inl (failure 403 ''Invalid or expired token'')"
    by blast
  have "bearer_token (Some ''Bearer tok-ghost'') = Some ''tok-ghost'' \<and> ''tok-ghost'' \<noteq> [] \<and>
        JWT_SECRET sample_env = Some ''secret'' \<and> ''secret'' \<noteq> [] \<and>
        jwt_verify sample_env ''tok-ghost'' ''secret'' = Some (Oid 77) \<and>
        (User_findById 77 users_with_former = None \<or>
         (\<exists>u. User_findById 77 users_with_former = Some u \<and> \<not> isActive u))"
    by (simp add: sample_env_def bearer_token_def at_index_def User_findById_def users_with_former_def
          seed_users_def seed_admin_def seed_verifier_def former_verifier_def)
  with T[where authorization = "Some ''Bearer tok-ghost''" and token = "''tok-ghost''" and env = sample_env
           and users = users_with_former and roles = "[''admin'']" and secret = "''secret''" and userId = 77
           and r = "failure 401 ''Invalid or inactive user''"]
  have c3: "gate [''admin''] sample_env users_with_former (Some ''Bearer tok-ghost'') =
     Inl (failure 401 ''Invalid or inactive user'')"
    by blast
  have "bearer_token (Some ''Bearer tok-former'') = Some ''tok-former'' \<and> ''tok-former'' \<noteq> [] \<and>
        JWT_SECRET sample_env = Some ''secret'' \<and> ''secret'' \<noteq> [] \<and>
        jwt_verify sample_env ''tok-former'' ''secret'' = Some (Oid 3) \<and>
        (User_findById 3 users_with_former = None \<or>
         (\<exists>u. User_findById 3 users_with_former = Some u \<and> \<not> isActive u))"
    by (simp add: sample_env_def bearer_token_def at_index_def User_findById_def users_with_former_def
          seed_users_def seed_admin_def seed_verifier_def former_verifier_def)
  with T[where authorization = "Some ''Bearer tok-former''" and token = "''tok-former''" and env = sample_env
           and users = users_with_former and roles = "[''admin'']" and secret = "''secret''" and userId = 3
           and r = "failure 401 ''Invalid or inactive user''"]
  have c4: "gate [''admin''] sample_env users_with_former (Some ''Bearer tok-former'') =
     Inl (failure 401 ''Invalid or inactive user'')"
    by blast
  have "bearer_token (Some ''Bearer tok-verifier'') = Some ''tok-verifier'' \<and> ''tok-verifier'' \<noteq> [] \<and>
        JWT_SECRET sample_env = Some ''secret'' \<and> ''secret'' \<noteq> [] \<and>
        jwt_verify sample_env ''tok-verifier'' ''secret'' = Some (Oid 2) \<and>
        User_findById 2 users_with_former = Some seed_verifier \<and> isActive seed_verifier"
    by (simp add: sample_env_def bearer_token_def at_index_def User_findById_def users_with_former_def
          seed_users_def seed_admin_def seed_verifier_def former_verifier_def)
  with T[where authorization = "Some ''Bearer tok-verifier''" and token = "''tok-verifier''" and env = sample_env
           and users = users_with_former and roles = "[''admin'']" and secret = "''secret''" and userId = 2
           and u = seed_verifier]
  have c5: "gate [''admin''] sample_env users_with_former (Some ''Bearer tok-verifier'') =
     Inl (failure 403 ''Insufficient permissions'')"
    by (simp add: seed_verifier_def)
  have "bearer_token (Some ''Bearer tok-admin'') = Some ''tok-admin'' \<and> ''tok-admin'' \<noteq> [] \<and>
        JWT_SECRET sample_env = Some ''secret'' \<and> ''secret'' \<noteq> [] \<and>
        jwt_verify sample_env ''tok-admin'' ''secret'' = Some (Oid 1) \<and>
        User_findById 1 users_with_former = Some seed_admin \<and> isActive seed_admin"
    by (simp add: sample_env_def bearer_token_def at_index_def User_findById_def users_with_former_def
          seed_users_def seed_admin_def seed_verifier_def former_verifier_def)
  with T[where authorization = "Some ''Bearer tok-admin''" and token = "''tok-admin''" and env = sample_env
           and users = users_with_former and roles = "[''admin'']" and secret = "''secret''" and userId = 1
           and u = seed_admin]
  have c6: "gate [''admin''] sample_env users_with_former (Some ''Bearer tok-admin'') =
     Inr (select_minus_password seed_admin)"
    by (simp add: seed_admin_def)
  from c1 c2 c3 c4 c5 c6 show ?thesis by blast
qed

text \<open>
  The claim as the specification words it (401 for a malformed or expired token, 403
  only for an insufficient role) fails on a request whose token does not verify: the
  token is present, \<open>jwt.verify\<close> rejects it, and the answer is 403.
\<close>

theorem malformed_token_counterexample:
  "bearer_token (Some ''Bearer not.a.jwt'') = Some ''not.a.jwt'' \<and>
   jwt_verify sample_env ''not.a.jwt'' ''secret'' = None \<and>
   authenticateToken sample_env seed_users (Some ''Bearer not.a.jwt'') =
     Inl (failure 403 ''Invalid or expired token'') \<and>
   code (failure 403 ''Invalid or expired token'') \<noteq> 401"
  by (simp add: authenticateToken_def bearer_token_def at_index_def sample_env_def failure_def)

section \<open>Reading loans\<close>

lemma role_str_verifier: "role_str r = ''verifier'' \<longleftrightarrow> r = Verifier"
  by (cases r) simp_all

lemma status_str_pending: "status_str s = ''pending'' \<longleftrightarrow> s = Pending"
  by (cases s) simp_all

lemma build_query_verifier:
  "role user = Verifier \<Longrightarrow>
     build_query user status_param search =
       \<lparr> q_status = Some ''pending'', q_or = (if truthy search then search else None) \<rparr>"
  by (simp add: build_query_def Let_def)

lemma build_query_admin:
  "role user = Admin \<Longrightarrow>
     build_query user status_param search =
       \<lparr> q_status = (if truthy status_param \<and> status_param \<noteq> Some ''all'' then status_param else None),
         q_or = (if truthy search then search else None) \<rparr>"
  by (simp add: build_query_def Let_def)

lemma set_sort_skip_limit: "set (sort_skip_limit skip limitNum ls) \<subseteq> set ls"
proof -
  have "set (drop (nat skip) (rev (sort_key createdAt ls))) \<subseteq> set ls"
    using set_drop_subset[of "nat skip" "rev (sort_key createdAt ls)"] by simp
  moreover have "set (take (nat \<bar>limitNum\<bar>) (drop (nat skip) (rev (sort_key createdAt ls))))
      \<subseteq> set (drop (nat skip) (rev (sort_key createdAt ls)))"
    by (rule set_take_subset)
  ultimately show ?thesis by (auto simp: sort_skip_limit_def Let_def)
qed

lemma verifier_list_pending:
  assumes "role user = Verifier"
    and "payload (get_loans_handler regex_i user status_param search pageNum limitNum users loans) = LoanList vs pg"
    and "v \<in> set vs"
  shows "status (view_doc v) = Pending"
proof -
  let ?q = "build_query user status_param search"
  from assms(2) have vs: "vs = map (populate_both users)
      (sort_skip_limit ((pageNum - 1) * limitNum) limitNum (filter (matches_query regex_i ?q) loans))"
    by (auto simp: get_loans_handler_def Let_def failure_def split: if_splits)
  with assms(3) obtain l where l: "v = populate_both users l"
    "l \<in> set (sort_skip_limit ((pageNum - 1) * limitNum) limitNum (filter (matches_query regex_i ?q) loans))"
    by auto
  from l(2) set_sort_skip_limit have "l \<in> set (filter (matches_query regex_i ?q) loans)" by blast
  then have "matches_query regex_i ?q l" by simp
  with assms(1) have "status l = Pending"
    by (simp add: build_query_verifier matches_query_def status_str_pending)
  with l(1) show ?thesis by (simp add: populate_both_def)
qed

text \<open>
  C5. For a verifier the list route ignores the status filter of the query: the answer is
  the one for the filter \<open>pending\<close>, and every loan in it is pending. For a verifier
  the single-loan route answers 403 for a loan that is not pending. For an administrator
  the single-loan route answers 200 with the loan whatever its status, and the list
  route answers 200 with the loans that match the filter as it was requested; without a
  status filter and a search, every loan matches.
\<close>

theorem verifier_restricted_to_pending:
  "(role user = Verifier \<longrightarrow>
      get_loans_handler regex_i user status_param search pageNum limitNum users loans =
        get_loans_handler regex_i user (Some ''pending'') search pageNum limitNum users loans \<and>
      (\<forall>vs pg. payload (get_loans_handler regex_i user status_param search pageNum limitNum users loans) =
                  LoanList vs pg \<longrightarrow> (\<forall>v\<in>set vs. status (view_doc v) = Pending))) \<and>
   (role user = Verifier \<and> Loan_findById i loans = Some l \<and> status l \<noteq> Pending \<longrightarrow>
      get_loan_handler user (Oid i) users loans = failure 403 ''Access denied'') \<and>
   (role user = Admin \<and> Loan_findById i loans = Some l \<longrightarrow>
      get_loan_handler user (Oid i) users loans =
        \<lparr> code = 200, success = True, message = None,
          payload = LoanData (Some (populate_both users l)) \<rparr>) \<and>
   (role user = Admin \<and> 0 \<le> (pageNum - 1) * limitNum \<longrightarrow>
      code (get_loans_handler regex_i user status_param search pageNum limitNum users loans) = 200 \<and>
      (\<exists>pg. payload (get_loans_handler regex_i user status_param search pageNum limitNum users loans) =
         LoanList (map (populate_both users)
                    (sort_skip_limit ((pageNum - 1) * limitNum) limitNum
                       (filter (matches_query regex_i
                          \<lparr> q_status = (if truthy status_param \<and> status_param \<noteq> Some ''all''
                                        then status_param else None),
                            q_or = (if truthy search then search else None) \<rparr>) loans))) pg)) \<and>
   (role user = Admin \<and> (status_param = None \<or> status_param = Some ''all'') \<and> search = None \<longrightarrow>
      matches_query regex_i (build_query user status_param search) l)"
proof (intro conjI impI allI ballI)
  assume v: "role user = Verifier"
  then show "get_loans_handler regex_i user status_param search pageNum limitNum users loans =
        get_loans_handler regex_i user (Some ''pending'') search pageNum limitNum users loans"
    by (simp add: get_loans_handler_def build_query_verifier)
  fix vs pg v'
  assume "payload (get_loans_handler regex_i user status_param search pageNum limitNum users loans) =
                  LoanList vs pg" and "v' \<in> set vs"
  with v show "status (view_doc v') = Pending" by (rule verifier_list_pending)
next
  assume "role user = Verifier \<and> Loan_findById i loans = Some l \<and> status l \<noteq> Pending"
  then show "get_loan_handler user (Oid i) users loans = failure 403 ''Access denied''"
    by (simp add: get_loan_handler_def)
next
  assume "role user = Admin \<and> Loan_findById i loans = Some l"
  then show "get_loan_handler user (Oid i) users loans =
        \<lparr> code = 200, success = True, message = None,
          payload = LoanData (Some (populate_both users l)) \<rparr>"
    by (simp add: get_loan_handler_def)
next
  assume a: "role user = Admin \<and> 0 \<le> (pageNum - 1) * limitNum"
  then show "code (get_loans_handler regex_i user status_param search pageNum limitNum users loans) = 200"
    by (simp add: get_loans_handler_def Let_def)
  from a show "\<exists>pg. payload (get_loans_handler regex_i user status_param search pageNum limitNum users loans) =
         LoanList (map (populate_both users)
                    (sort_skip_limit ((pageNum - 1) * limitNum) limitNum
                       (filter (matches_query regex_i
                          \<lparr> q_status = (if truthy status_param \<and> status_param \<noteq> Some ''all''
                                        then status_param else None),
                            q_or = (if truthy search then search else None) \<rparr>) loans))) pg"
    by (simp add: get_loans_handler_def Let_def build_query_admin)
next
  assume "role user = Admin \<and> (status_param = None \<or> status_param = Some ''all'') \<and> search = None"
  then show "matches_query regex_i (build_query user status_param search) l"
    by (auto simp: build_query_admin matches_query_def truthy_def falsy_def)
qed

text \<open>
  On the seed data the verifier asks the list route for approved loans and gets the one
  pending loan; asks for the approved loan 12 and gets 403. The administrator gets loan
  12 with 200, and a first page of the list with 200.
\<close>

theorem verifier_restricted_to_pending_witness:
  "role (select_minus_password seed_verifier) = Verifier \<and>
   role (select_minus_password seed_admin) = Admin \<and>
   (\<exists>pg. payload (get_loans_handler (\<lambda>p s. p = s) (select_minus_password seed_verifier)
                    (Some ''approved'') None 1 10 seed_users seed_loans) =
            LoanList [populate_both seed_users loan_john] pg) \<and>
   status (view_doc (populate_both seed_users loan_john)) = Pending \<and>
   Loan_findById 12 seed_loans = Some loan_bob \<and> status loan_bob \<noteq> Pending \<and>
   get_loan_handler (select_minus_password seed_verifier) (Oid 12) seed_users seed_loans =
     failure 403 ''Access denied'' \<and>
   get_loan_handler (select_minus_password seed_admin) (Oid 12) seed_users seed_loans =
     \<lparr> code = 200, success = True, message = None,
       payload = LoanData (Some (populate_both seed_users loan_bob)) \<rparr> \<and>
   code (get_loans_handler (\<lambda>p s. p = s) (select_minus_password seed_admin)
           None None 1 10 seed_users seed_loans) = 200 \<and>
   matches_query (\<lambda>p s. p = s) (build_query (select_minus_password seed_admin) None None) loan_bob"
proof -
  note T = verifier_restricted_to_pending
  have r: "role (select_minus_password seed_verifier) = Verifier"
    "role (select_minus_password seed_admin) = Admin"
    by (simp_all add: select_minus_password_fields seed_verifier_def seed_admin_def)
  have p: "payload (get_loans_handler (\<lambda>p s. p = s) (select_minus_password seed_verifier)
                    (Some ''approved'') None 1 10 seed_users seed_loans) =
            LoanList [populate_both seed_users loan_john]
              \<lparr> page = 1, limit = 10, total = 1, pages = Some 1 \<rparr>"
    by code_simp
  from r(1) p
    T[where user = "select_minus_password seed_verifier" and regex_i = "\<lambda>p s. p = s"
        and status_param = "Some ''approved''" and search = None and pageNum = 1 and limitNum = 10
        and users = seed_users and loans = seed_loans]
  have c1: "status (view_doc (populate_both seed_users loan_john)) = Pending"
    by simp
  have b: "Loan_findById 12 seed_loans = Some loan_bob" "status loan_bob \<noteq> Pending"
    by code_simp+
  from r(1) b
    T[where user = "select_minus_password seed_verifier" and i = 12 and l = loan_bob
        and users = seed_users and loans = seed_loans]
  have c2: "get_loan_handler (select_minus_password seed_verifier) (Oid 12) seed_users seed_loans =
     failure 403 ''Access denied''"
    by blast
  from r(2) b
    T[where user = "select_minus_password seed_admin" and i = 12 and l = loan_bob
        and users = seed_users and loans = seed_loans]
  have c3: "get_loan_handler (select_minus_password seed_admin) (Oid 12) seed_users seed_loans =
     \<lparr> code = 200, success = True, message = None,
       payload = LoanData (Some (populate_both seed_users loan_bob)) \<rparr>"
    by blast
  have "0 \<le> ((1::int) - 1) * 10" by simp
  with r(2)
    T[where user = "select_minus_password seed_admin" and regex_i = "\<lambda>p s. p = s"
        and status_param = None and search = None and pageNum = 1 and limitNum = 10
        and users = seed_users and loans = seed_loans and l = loan_bob]
  have c4: "code (get_loans_handler (\<lambda>p s. p = s) (select_minus_password seed_admin)
           None None 1 10 seed_users seed_loans) = 200"
    and c5: "matches_query (\<lambda>p s. p = s) (build_query (select_minus_password seed_admin) None None) loan_bob"
    by blast+
  from r p c1 b c2 c3 c4 c5 show ?thesis by blast
qed

section \<open>What a transition writes\<close>

lemma apply_update_verify:
  "apply_update (verify_updateData user (Some ''verify'') reason now) now l =
     l\<lparr> status := Verified, verifiedBy := Some (user_id user), verificationDate := Some now,
        updatedAt := now \<rparr>"
  by (simp add: apply_update_def verify_updateData_def set_path_def)

lemma apply_update_verify_reject:
  "action \<noteq> Some ''verify'' \<Longrightarrow>
   apply_update (verify_updateData user action (Some rtext) now) now l =
     l\<lparr> status := Rejected, verifiedBy := Some (user_id user), verificationDate := Some now,
        rejectionReason := Some (trim rtext), updatedAt := now \<rparr>"
  by (simp add: apply_update_def verify_updateData_def set_path_def)

lemma apply_update_approve:
  "apply_update (approve_updateData user (Some ''approve'') reason now) now l =
     l\<lparr> status := Approved, approvedBy := Some (user_id user), approvalDate := Some now,
        updatedAt := now \<rparr>"
  by (simp add: apply_update_def approve_updateData_def set_path_def)

lemma apply_update_approve_reject:
  "action \<noteq> Some ''approve'' \<Longrightarrow>
   apply_update (approve_updateData user action (Some rtext) now) now l =
     l\<lparr> status := Rejected, approvedBy := Some (user_id user), approvalDate := Some now,
        rejectionReason := Some (trim rtext), updatedAt := now \<rparr>"
  by (simp add: apply_update_def approve_updateData_def set_path_def)

lemma well_formed_verify:
  "array_includes [''verify'', ''reject''] action \<Longrightarrow> \<not> (action = Some ''reject'' \<and> falsy reason) \<Longrightarrow>
     action = Some ''verify'' \<or> (action = Some ''reject'' \<and> (\<exists>rtext. reason = Some rtext \<and> rtext \<noteq> []))"
  by (auto simp: array_includes_def falsy_def split: option.splits)

lemma well_formed_approve:
  "array_includes [''approve'', ''reject''] action \<Longrightarrow> \<not> (action = Some ''reject'' \<and> falsy reason) \<Longrightarrow>
     action = Some ''approve'' \<or> (action = Some ''reject'' \<and> (\<exists>rtext. reason = Some rtext \<and> rtext \<noteq> []))"
  by (auto simp: array_includes_def falsy_def split: option.splits)

text \<open>
  C8, as the code has it. A successful transition replaces one document of the
  collection, the one that \<open>findById\<close> returned, and leaves every other document as it
  was. In that document the verify route writes \<open>status\<close>, \<open>verifiedBy\<close> and
  \<open>verificationDate\<close>, and on a reject also \<open>rejectionReason\<close> (trimmed by the schema);
  the approve route writes \<open>status\<close>, \<open>approvedBy\<close> and \<open>approvalDate\<close>, and on a
  reject also \<open>rejectionReason\<close>. Besides these the write sets \<open>updatedAt\<close>, which the
  schema maintains (\<open>timestamps: true\<close>), to the time of the write. Every other field is
  kept: the applicant's fields, \<open>createdAt\<close>, the documents, and for the approve route
  the recorded \<open>verifiedBy\<close> and \<open>verificationDate\<close>.
\<close>

theorem transition_writes_prescribed_fields:
  "(code (fst (verify_handler user action reason idp now users loans)) = 200 \<longrightarrow>
      (\<exists>j l. j < length loans \<and> loans ! j = l \<and> idp = Oid (loan_id l) \<and> status l = Pending \<and>
         ((action = Some ''verify'' \<and>
           snd (verify_handler user action reason idp now users loans) =
             loans[j := l\<lparr> status := Verified, verifiedBy := Some (user_id user),
                            verificationDate := Some now, updatedAt := now \<rparr>]) \<or>
          (action = Some ''reject'' \<and>
           (\<exists>rtext. reason = Some rtext \<and> rtext \<noteq> [] \<and>
              snd (verify_handler user action reason idp now users loans) =
                loans[j := l\<lparr> status := Rejected, verifiedBy := Some (user_id user),
                               verificationDate := Some now, rejectionReason := Some (trim rtext),
                               updatedAt := now \<rparr>]))))) \<and>
   (code (fst (approve_handler user action reason idp now users loans)) = 200 \<longrightarrow>
      (\<exists>j l. j < length loans \<and> loans ! j = l \<and> idp = Oid (loan_id l) \<and> status l = Verified \<and>
         ((action = Some ''approve'' \<and>
           snd (approve_handler user action reason idp now users loans) =
             loans[j := l\<lparr> status := Approved, approvedBy := Some (user_id user),
                            approvalDate := Some now, updatedAt := now \<rparr>]) \<or>
          (action = Some ''reject'' \<and>
           (\<exists>rtext. reason = Some rtext \<and> rtext \<noteq> [] \<and>
              snd (approve_handler user action reason idp now users loans) =
                loans[j := l\<lparr> status := Rejected, approvedBy := Some (user_id user),
                               approvalDate := Some now, rejectionReason := Some (trim rtext),
                               updatedAt := now \<rparr>])))))"
proof (intro conjI impI)
  assume ok: "code (fst (verify_handler user action reason idp now users loans)) = 200"
  from verify_handler_200[OF ok] have wf: "array_includes [''verify'', ''reject''] action"
    "\<not> (action = Some ''reject'' \<and> falsy reason)" by simp_all
  from ok have "snd (verify_handler user action reason idp now users loans) \<noteq> loans \<or>
                snd (verify_handler user action reason idp now users loans) = loans" by simp
  from verify_handler_200[OF ok] obtain i l0 where
    f: "idp = Oid i" "Loan_findById i loans = Some l0" "status l0 = Pending" by blast
  from Loan_findById_Some[OF f(2)] have i: "loan_id l0 = i" by simp
  from update_first_is_list_update[OF f(2)] obtain j where
    j: "j < length loans" "loans ! j = l0"
       "update_first i (apply_update (verify_updateData user action reason now) now) loans =
          loans[j := apply_update (verify_updateData user action reason now) now l0]"
    by blast
  from verify_handler_success[OF wf f(2) f(3)] f(1) j(3)
  have s: "snd (verify_handler user action reason idp now users loans) =
          loans[j := apply_update (verify_updateData user action reason now) now l0]"
    by simp
  from well_formed_verify[OF wf] show "\<exists>j l. j < length loans \<and> loans ! j = l \<and> idp = Oid (loan_id l) \<and> status l = Pending \<and>
         ((action = Some ''verify'' \<and>
           snd (verify_handler user action reason idp now users loans) =
             loans[j := l\<lparr> status := Verified, verifiedBy := Some (user_id user),
                            verificationDate := Some now, updatedAt := now \<rparr>]) \<or>
          (action = Some ''reject'' \<and>
           (\<exists>rtext. reason = Some rtext \<and> rtext \<noteq> [] \<and>
              snd (verify_handler user action reason idp now users loans) =
                loans[j := l\<lparr> status := Rejected, verifiedBy := Some (user_id user),
                               verificationDate := Some now, rejectionReason := Some (trim rtext),
                               updatedAt := now \<rparr>])))"
  proof
    assume a: "action = Some ''verify''"
    with s have "snd (verify_handler user action reason idp now users loans) =
             loans[j := l0\<lparr> status := Verified, verifiedBy := Some (user_id user),
                            verificationDate := Some now, updatedAt := now \<rparr>]"
      by (simp add: apply_update_verify)
    with a j f i show ?thesis by blast
  next
    assume "action = Some ''reject'' \<and> (\<exists>rtext. reason = Some rtext \<and> rtext \<noteq> [])"
    then obtain rtext where a: "action = Some ''reject''" "reason = Some rtext" "rtext \<noteq> []" by blast
    with s have "snd (verify_handler user action reason idp now users loans) =
                loans[j := l0\<lparr> status := Rejected, verifiedBy := Some (user_id user),
                               verificationDate := Some now, rejectionReason := Some (trim rtext),
                               updatedAt := now \<rparr>]"
      by (simp add: apply_update_verify_reject)
    with a j f i show ?thesis by blast
  qed
next
  assume ok: "code (fst (approve_handler user action reason idp now users loans)) = 200"
  from approve_handler_200[OF ok] have wf: "array_includes [''approve'', ''reject''] action"
    "\<not> (action = Some ''reject'' \<and> falsy reason)" by simp_all
  from approve_handler_200[OF ok] obtain i l0 where
    f: "idp = Oid i" "Loan_findById i loans = Some l0" "status l0 = Verified" by blast
  from Loan_findById_Some[OF f(2)] have i: "loan_id l0 = i" by simp
  from update_first_is_list_update[OF f(2)] obtain j where
    j: "j < length loans" "loans ! j = l0"
       "update_first i (apply_update (approve_updateData user action reason now) now) loans =
          loans[j := apply_update (approve_updateData user action reason now) now l0]"
    by blast
  from approve_handler_success[OF wf f(2) f(3)] f(1) j(3)
  have s: "snd (approve_handler user action reason idp now users loans) =
          loans[j := apply_update (approve_updateData user action reason now) now l0]"
    by simp
  from well_formed_approve[OF wf] show "\<exists>j l. j < length loans \<and> loans ! j = l \<and> idp = Oid (loan_id l) \<and> status l = Verified \<and>
         ((action = Some ''approve'' \<and>
           snd (approve_handler user action reason idp now users loans) =
             loans[j := l\<lparr> status := Approved, approvedBy := Some (user_id user),
                            approvalDate := Some now, updatedAt := now \<rparr>]) \<or>
          (action = Some ''reject'' \<and>
           (\<exists>rtext. reason = Some rtext \<and> rtext \<noteq> [] \<and>
              snd (approve_handler user action reason idp now users loans) =
                loans[j := l\<lparr> status := Rejected, approvedBy := Some (user_id user),
                               approvalDate := Some now, rejectionReason := Some (trim rtext),
                               updatedAt := now \<rparr>])))"
  proof
    assume a: "action = Some ''approve''"
    with s have "snd (approve_handler user action reason idp now users loans) =
             loans[j := l0\<lparr> status := Approved, approvedBy := Some (user_id user),
                            approvalDate := Some now, updatedAt := now \<rparr>]"
      by (simp add: apply_update_approve)
    with a j f i show ?thesis by blast
  next
    assume "action = Some ''reject'' \<and> (\<exists>rtext. reason = Some rtext \<and> rtext \<noteq> [])"
    then obtain rtext where a: "action = Some ''reject''" "reason = Some rtext" "rtext \<noteq> []" by blast
    with s have "snd (approve_handler user action reason idp now users loans) =
                loans[j := l0\<lparr> status := Rejected, approvedBy := Some (user_id user),
                               approvalDate := Some now, rejectionReason := Some (trim rtext),
                               updatedAt := now \<rparr>]"
      by (simp add: apply_update_approve_reject)
    with a j f i show ?thesis by blast
  qed
qed

text \<open>
  The verifier verifies the pending loan 10, at position 0 of the seed collection, at
  time 200; the administrator rejects the verified loan 11, at position 1, with a reason
  given with blanks around it.
\<close>

theorem transition_writes_prescribed_fields_witness:
  "code (fst (verify_handler (select_minus_password seed_verifier) (Some ''verify'') None (Oid 10) 200 seed_users seed_loans)) = 200 \<and>
   (\<exists>j l. j < length seed_loans \<and> seed_loans ! j = l \<and> Oid 10 = Oid (loan_id l) \<and> status l = Pending \<and>
      snd (verify_handler (select_minus_password seed_verifier) (Some ''verify'') None (Oid 10) 200 seed_users seed_loans) =
        seed_loans[j := l\<lparr> status := Verified, verifiedBy := Some (user_id (select_minus_password seed_verifier)),
                            verificationDate := Some 200, updatedAt := 200 \<rparr>]) \<and>
   snd (verify_handler (select_minus_password seed_verifier) (Some ''verify'') None (Oid 10) 200 seed_users seed_loans) =
     seed_loans[0 := loan_john\<lparr> status := Verified, verifiedBy := Some 2,
                                 verificationDate := Some 200, updatedAt := 200 \<rparr>] \<and>
   code (fst (approve_handler (select_minus_password seed_admin) (Some ''reject'') (Some '' income too low '') (Oid 11) 300 seed_users seed_loans)) = 200 \<and>
   (\<exists>j l. j < length seed_loans \<and> seed_loans ! j = l \<and> Oid 11 = Oid (loan_id l) \<and> status l = Verified \<and>
      snd (approve_handler (select_minus_password seed_admin) (Some ''reject'') (Some '' income too low '') (Oid 11) 300 seed_users seed_loans) =
        seed_loans[j := l\<lparr> status := Rejected, approvedBy := Some (user_id (select_minus_password seed_admin)),
                            approvalDate := Some 300, rejectionReason := Some (trim '' income too low ''),
                            updatedAt := 300 \<rparr>]) \<and>
   snd (approve_handler (select_minus_password seed_admin) (Some ''reject'') (Some '' income too low '') (Oid 11) 300 seed_users seed_loans) =
     seed_loans[1 := loan_jane\<lparr> status := Rejected, approvedBy := Some 1,
                                 approvalDate := Some 300, rejectionReason := Some ''income too low'',
                                 updatedAt := 300 \<rparr>]"
proof -
  note T = transition_writes_prescribed_fields
  have s1: "code (fst (verify_handler (select_minus_password seed_verifier) (Some ''verify'') None (Oid 10) 200 seed_users seed_loans)) = 200"
    by code_simp
  have v1: "snd (verify_handler (select_minus_password seed_verifier) (Some ''verify'') None (Oid 10) 200 seed_users seed_loans) =
     seed_loans[0 := loan_john\<lparr> status := Verified, verifiedBy := Some 2,
                                 verificationDate := Some 200, updatedAt := 200 \<rparr>]"
    by code_simp
  have n1: "Some ''verify'' \<noteq> Some ''reject''" by simp
  from T[where user = "select_minus_password seed_verifier" and action = "Some ''verify''" and reason = None
        and idp = "Oid 10" and now = 200 and users = seed_users and loans = seed_loans]
  have "code (fst (verify_handler (select_minus_password seed_verifier) (Some ''verify'') None (Oid 10) 200 seed_users seed_loans)) = 200 \<longrightarrow>
    (\<exists>j l. j < length seed_loans \<and> seed_loans ! j = l \<and> Oid 10 = Oid (loan_id l) \<and> status l = Pending \<and>
      snd (verify_handler (select_minus_password seed_verifier) (Some ''verify'') None (Oid 10) 200 seed_users seed_loans) =
        seed_loans[j := l\<lparr> status := Verified, verifiedBy := Some (user_id (select_minus_password seed_verifier)),
                            verificationDate := Some 200, updatedAt := 200 \<rparr>])"
    unfolding n1[simplified] by (simp only: simp_thms option.inject list.inject char.inject) blast
  with s1 have c1: "\<exists>j l. j < length seed_loans \<and> seed_loans ! j = l \<and> Oid 10 = Oid (loan_id l) \<and> status l = Pending \<and>
      snd (verify_handler (select_minus_password seed_verifier) (Some ''verify'') None (Oid 10) 200 seed_users seed_loans) =
        seed_loans[j := l\<lparr> status := Verified, verifiedBy := Some (user_id (select_minus_password seed_verifier)),
                            verificationDate := Some 200, updatedAt := 200 \<rparr>]"
    by (rule rev_mp)
  have s2: "code (fst (approve_handler (select_minus_password seed_admin) (Some ''reject'') (Some '' income too low '') (Oid 11) 300 seed_users seed_loans)) = 200"
    by code_simp
  have v2: "snd (approve_handler (select_minus_password seed_admin) (Some ''reject'') (Some '' income too low '') (Oid 11) 300 seed_users seed_loans) =
     seed_loans[1 := loan_jane\<lparr> status := Rejected, approvedBy := Some 1,
                                 approvalDate := Some 300, rejectionReason := Some ''income too low'',
                                 updatedAt := 300 \<rparr>]"
    by code_simp
  from T[where user = "select_minus_password seed_admin" and action = "Some ''reject''"
        and reason = "Some '' income too low ''"
        and idp = "Oid 11" and now = 300 and users = seed_users and loans = seed_loans]
  have "code (fst (approve_handler (select_minus_password seed_admin) (Some ''reject'') (Some '' income too low '') (Oid 11) 300 seed_users seed_loans)) = 200 \<longrightarrow>
   (\<exists>j l. j < length seed_loans \<and> seed_loans ! j = l \<and> Oid 11 = Oid (loan_id l) \<and> status l = Verified \<and>
      snd (approve_handler (select_minus_password seed_admin) (Some ''reject'') (Some '' income too low '') (Oid 11) 300 seed_users seed_loans) =
        seed_loans[j := l\<lparr> status := Rejected, approvedBy := Some (user_id (select_minus_password seed_admin)),
                            approvalDate := Some 300, rejectionReason := Some (trim '' income too low ''),
                            updatedAt := 300 \<rparr>])"
    by (simp only: simp_thms option.inject list.inject char.inject list.distinct) blast
  with s2 have c2: "\<exists>j l. j < length seed_loans \<and> seed_loans ! j = l \<and> Oid 11 = Oid (loan_id l) \<and> status l = Verified \<and>
      snd (approve_handler (select_minus_password seed_admin) (Some ''reject'') (Some '' income too low '') (Oid 11) 300 seed_users seed_loans) =
        seed_loans[j := l\<lparr> status := Rejected, approvedBy := Some (user_id (select_minus_password seed_admin)),
                            approvalDate := Some 300, rejectionReason := Some (trim '' income too low ''),
                            updatedAt := 300 \<rparr>]"
    by (rule rev_mp)
  from s1 c1 v1 s2 c2 v2 show ?thesis by (intro conjI)
qed

text \<open>
  The claim as the specification words it (every field other than the prescribed ones is
  left unchanged) fails on \<open>updatedAt\<close>: the verifier verifies loan 10, last updated at
  time 100, at time 200, and the stored document then carries 200.
\<close>

theorem updatedAt_counterexample:
  "map_option updatedAt (Loan_findById 10 seed_loans) = Some 100 \<and>
   code (fst (verify_handler (select_minus_password seed_verifier) (Some ''verify'') None (Oid 10) 200 seed_users seed_loans)) = 200 \<and>
   map_option updatedAt (Loan_findById 10
      (snd (verify_handler (select_minus_password seed_verifier) (Some ''verify'') None (Oid 10) 200 seed_users seed_loans))) =
     Some 200"
  by code_simp

section \<open>The response of a successful transition\<close>

lemma select_name_email:
  "select_fields [''name'', ''email''] (user_fields u) =
     [(''_id'', IdV (user_id u)), (''email'', StrV (user_email u)), (''name'', StrV (user_name u))]"
  by (simp add: select_fields_def user_fields_def)

lemma populate_no_password:
  "populate [''name'', ''email''] users r = Expanded fs \<Longrightarrow> ''password'' \<notin> fst ` set fs"
  by (auto simp: populate_def select_name_email split: option.splits)

lemma populate_never_raw:
  "populate paths users r \<noteq> RawId i"
  by (simp add: populate_def split: option.splits)

lemma authenticateToken_Inr:
  "authenticateToken env users authorization = Inr user \<Longrightarrow>
     \<exists>u. User_findById (user_id user) users = Some u \<and> user = select_minus_password u \<and> isActive u"
proof -
  assume a: "authenticateToken env users authorization = Inr user"
  then obtain i u where u: "User_findById i users = Some u" "user = select_minus_password u" "isActive u"
    by (auto simp: authenticateToken_def split: option.splits if_splits IdParam.splits)
  from User_findById_Some[OF u(1)] have "user_id u = i" by simp
  with u show ?thesis by (auto simp: select_minus_password_fields)
qed

lemma gate_Inr:
  "gate roles env users authorization = Inr user \<Longrightarrow>
     \<exists>u. User_findById (user_id user) users = Some u \<and> user = select_minus_password u \<and> isActive u"
  by (auto simp: gate_def split: sum.splits option.splits dest: authenticateToken_Inr)

lemma populate_actor:
  "User_findById (user_id user) users = Some u \<Longrightarrow> user = select_minus_password u \<Longrightarrow>
     populate [''name'', ''email''] users (Some (user_id user)) =
       Expanded [(''_id'', IdV (user_id u)), (''email'', StrV (user_email u)), (''name'', StrV (user_name u))]"
  by (simp add: populate_def select_name_email)

lemma verifiedBy_after_verify:
  "verifiedBy (apply_update (verify_updateData user action reason now) now l) = Some (user_id user)"
  by (simp add: apply_update_def verify_updateData_def set_path_def)

lemma approvedBy_after_approve:
  "approvedBy (apply_update (approve_updateData user action reason now) now l) = Some (user_id user)"
  by (simp add: apply_update_def approve_updateData_def set_path_def)

text \<open>
  C7, as the code has it. A successful transition answers with the loan as it is after
  the write. At the verify endpoint the \<open>verifiedBy\<close> reference, which the write has
  just set to the caller, is expanded to a summary of exactly three paths: the caller's
  \<open>_id\<close>, which \<open>populate\<close> keeps whatever the selection, and the selected \<open>email\<close>
  and \<open>name\<close>. At the approve endpoint the \<open>approvedBy\<close> reference is expanded in the
  same way and the recorded \<open>verifiedBy\<close> is populated too. No expanded reference in
  either response has a \<open>password\<close> path.
\<close>

theorem transition_response_expands_actor:
  "(verify_endpoint env authorization action reason idp now users loans = (r, loans') \<and> code r = 200 \<longrightarrow>
      (\<exists>u v. User_findById (user_id u) users = Some u \<and>
             payload r = LoanData (Some v) \<and>
             view_doc v \<in> set loans' \<and>
             verifiedBy (view_doc v) = Some (user_id u) \<and>
             view_verifiedBy v =
               Expanded [(''_id'', IdV (user_id u)), (''email'', StrV (user_email u)),
                         (''name'', StrV (user_name u))] \<and>
             (\<forall>fs. view_verifiedBy v = Expanded fs \<or> view_approvedBy v = Expanded fs \<longrightarrow>
                   ''password'' \<notin> fst ` set fs))) \<and>
   (approve_endpoint env authorization action reason idp now users loans = (r, loans') \<and> code r = 200 \<longrightarrow>
      (\<exists>u v. User_findById (user_id u) users = Some u \<and>
             payload r = LoanData (Some v) \<and>
             view_doc v \<in> set loans' \<and>
             approvedBy (view_doc v) = Some (user_id u) \<and>
             view_approvedBy v =
               Expanded [(''_id'', IdV (user_id u)), (''email'', StrV (user_email u)),
                         (''name'', StrV (user_name u))] \<and>
             view_verifiedBy v = populate [''name'', ''email''] users (verifiedBy (view_doc v)) \<and>
             (\<forall>fs. view_verifiedBy v = Expanded fs \<or> view_approvedBy v = Expanded fs \<longrightarrow>
                   ''password'' \<notin> fst ` set fs)))"
proof (intro conjI impI)
  assume a: "verify_endpoint env authorization action reason idp now users loans = (r, loans') \<and> code r = 200"
  have "\<exists>user. gate [''verifier'', ''admin''] env users authorization = Inr user"
  proof (cases "gate [''verifier'', ''admin''] env users authorization")
    case (Inl d)
    with a gate_Inl_codes[OF Inl] show ?thesis by (auto simp: verify_endpoint_denied)
  next
    case (Inr user)
    then show ?thesis by blast
  qed
  then obtain user where g: "gate [''verifier'', ''admin''] env users authorization = Inr user" by blast
  from gate_Inr[OF g] obtain u where
    u: "User_findById (user_id user) users = Some u" "user = select_minus_password u" by blast
  from a g have h: "verify_handler user action reason idp now users loans = (r, loans')" "code r = 200"
    by (simp_all add: verify_endpoint_granted)
  then have ok: "code (fst (verify_handler user action reason idp now users loans)) = 200" by simp
  from verify_handler_200[OF ok] obtain i l where
    wf: "array_includes [''verify'', ''reject''] action" "\<not> (action = Some ''reject'' \<and> falsy reason)"
    and f: "idp = Oid i" "Loan_findById i loans = Some l" "status l = Pending"
    by blast
  let ?d = "apply_update (verify_updateData user action reason now) now l"
  from verify_handler_success[OF wf f(2) f(3), of user now users] f(1) h(1)
  have r: "payload r = LoanData (Some (verify_view users ?d))"
    and s: "loans' = update_first i (apply_update (verify_updateData user action reason now) now) loans"
    by auto
  from update_first_is_list_update[OF f(2)] s obtain j where "j < length loans" "loans' = loans[j := ?d]"
    by blast
  then have m: "?d \<in> set loans'" by (simp add: set_update_memI)
  have uid: "user_id u = user_id user" using u(2) by (simp add: select_minus_password_fields)
  have vb: "view_verifiedBy (verify_view users ?d) =
      Expanded [(''_id'', IdV (user_id u)), (''email'', StrV (user_email u)), (''name'', StrV (user_name u))]"
    using populate_actor[OF u] by (simp add: verify_view_def verifiedBy_after_verify)
  have np: "\<forall>fs. view_verifiedBy (verify_view users ?d) = Expanded fs \<or>
                 view_approvedBy (verify_view users ?d) = Expanded fs \<longrightarrow> ''password'' \<notin> fst ` set fs"
    by (auto simp: verify_view_def unpopulated_def split: option.splits dest: populate_no_password)
  from u(1) uid r m vb np
  show "\<exists>u v. User_findById (user_id u) users = Some u \<and>
             payload r = LoanData (Some v) \<and>
             view_doc v \<in> set loans' \<and>
             verifiedBy (view_doc v) = Some (user_id u) \<and>
             view_verifiedBy v =
               Expanded [(''_id'', IdV (user_id u)), (''email'', StrV (user_email u)),
                         (''name'', StrV (user_name u))] \<and>
             (\<forall>fs. view_verifiedBy v = Expanded fs \<or> view_approvedBy v = Expanded fs \<longrightarrow>
                   ''password'' \<notin> fst ` set fs)"
    by (intro exI[of _ u] exI[of _ "verify_view users ?d"])
       (simp add: verify_view_def verifiedBy_after_verify)
next
  assume a: "approve_endpoint env authorization action reason idp now users loans = (r, loans') \<and> code r = 200"
  have "\<exists>user. gate [''admin''] env users authorization = Inr user"
  proof (cases "gate [''admin''] env users authorization")
    case (Inl d)
    with a gate_Inl_codes[OF Inl] show ?thesis by (auto simp: approve_endpoint_denied)
  next
    case (Inr user)
    then show ?thesis by blast
  qed
  then obtain user where g: "gate [''admin''] env users authorization = Inr user" by blast
  from gate_Inr[OF g] obtain u where
    u: "User_findById (user_id user) users = Some u" "user = select_minus_password u" by blast
  from a g have h: "approve_handler user action reason idp now users loans = (r, loans')" "code r = 200"
    by (simp_all add: approve_endpoint_granted)
  then have ok: "code (fst (approve_handler user action reason idp now users loans)) = 200" by simp
  from approve_handler_200[OF ok] obtain i l where
    wf: "array_includes [''approve'', ''reject''] action" "\<not> (action = Some ''reject'' \<and> falsy reason)"
    and f: "idp = Oid i" "Loan_findById i loans = Some l" "status l = Verified"
    by blast
  let ?d = "apply_update (approve_updateData user action reason now) now l"
  from approve_handler_success[OF wf f(2) f(3), of user now users] f(1) h(1)
  have r: "payload r = LoanData (Some (populate_both users ?d))"
    and s: "loans' = update_first i (apply_update (approve_updateData user action reason now) now) loans"
    by auto
  from update_first_is_list_update[OF f(2)] s obtain j where "j < length loans" "loans' = loans[j := ?d]"
    by blast
  then have m: "?d \<in> set loans'" by (simp add: set_update_memI)
  have uid: "user_id u = user_id user" using u(2) by (simp add: select_minus_password_fields)
  have ab: "view_approvedBy (populate_both users ?d) =
      Expanded [(''_id'', IdV (user_id u)), (''email'', StrV (user_email u)), (''name'', StrV (user_name u))]"
    using populate_actor[OF u] by (simp add: populate_both_def approvedBy_after_approve)
  have np: "\<forall>fs. view_verifiedBy (populate_both users ?d) = Expanded fs \<or>
                 view_approvedBy (populate_both users ?d) = Expanded fs \<longrightarrow> ''password'' \<notin> fst ` set fs"
    by (auto simp: populate_both_def dest: populate_no_password)
  from u(1) uid r m ab np
  show "\<exists>u v. User_findById (user_id u) users = Some u \<and>
             payload r = LoanData (Some v) \<and>
             view_doc v \<in> set loans' \<and>
             approvedBy (view_doc v) = Some (user_id u) \<and>
             view_approvedBy v =
               Expanded [(''_id'', IdV (user_id u)), (''email'', StrV (user_email u)),
                         (''name'', StrV (user_name u))] \<and>
             view_verifiedBy v = populate [''name'', ''email''] users (verifiedBy (view_doc v)) \<and>
             (\<forall>fs. view_verifiedBy v = Expanded fs \<or> view_approvedBy v = Expanded fs \<longrightarrow>
                   ''password'' \<notin> fst ` set fs)"
    by (intro exI[of _ u] exI[of _ "populate_both users ?d"])
       (simp add: populate_both_def approvedBy_after_approve)
qed

text \<open>
  With the verifier's token the pending loan 10 is verified, and with the
  administrator's token the verified loan 11 is approved; the responses carry the
  caller's identifier, email and name in place of the reference.
\<close>

theorem transition_response_expands_actor_witness:
  "code (fst (verify_endpoint sample_env (Some ''Bearer tok-verifier'') (Some ''verify'') None (Oid 10) 200 seed_users seed_loans)) = 200 \<and>
   (\<exists>u v. User_findById (user_id u) seed_users = Some u \<and>
      payload (fst (verify_endpoint sample_env (Some ''Bearer tok-verifier'') (Some ''verify'') None (Oid 10) 200 seed_users seed_loans)) =
        LoanData (Some v) \<and>
      view_verifiedBy v =
        Expanded [(''_id'', IdV (user_id u)), (''email'', StrV (user_email u)), (''name'', StrV (user_name u))]) \<and>
   (case payload (fst (verify_endpoint sample_env (Some ''Bearer tok-verifier'') (Some ''verify'') None (Oid 10) 200 seed_users seed_loans)) of
      LoanData (Some v) \<Rightarrow> view_verifiedBy v | _ \<Rightarrow> Unset) =
     Expanded [(''_id'', IdV 2), (''email'', StrV ''verifier@creditsea.com''), (''name'', StrV ''Loan Verifier'')] \<and>
   code (fst (approve_endpoint sample_env (Some ''Bearer tok-admin'') (Some ''approve'') None (Oid 11) 300 seed_users seed_loans)) = 200 \<and>
   (\<exists>u v. User_findById (user_id u) seed_users = Some u \<and>
      payload (fst (approve_endpoint sample_env (Some ''Bearer tok-admin'') (Some ''approve'') None (Oid 11) 300 seed_users seed_loans)) =
        LoanData (Some v) \<and>
      view_approvedBy v =
        Expanded [(''_id'', IdV (user_id u)), (''email'', StrV (user_email u)), (''name'', StrV (user_name u))]) \<and>
   (case payload (fst (approve_endpoint sample_env (Some ''Bearer tok-admin'') (Some ''approve'') None (Oid 11) 300 seed_users seed_loans)) of
      LoanData (Some v) \<Rightarrow> (view_verifiedBy v, view_approvedBy v) | _ \<Rightarrow> (Unset, Unset)) =
     (Expanded [(''_id'', IdV 2), (''email'', StrV ''verifier@creditsea.com''), (''name'', StrV ''Loan Verifier'')],
      Expanded [(''_id'', IdV 1), (''email'', StrV ''admin@creditsea.com''), (''name'', StrV ''System Administrator'')])"
proof -
  note T = transition_response_expands_actor
  let ?V = "verify_endpoint sample_env (Some ''Bearer tok-verifier'') (Some ''verify'') None (Oid 10) 200 seed_users seed_loans"
  let ?A = "approve_endpoint sample_env (Some ''Bearer tok-admin'') (Some ''approve'') None (Oid 11) 300 seed_users seed_loans"
  have s1: "code (fst ?V) = 200" by code_simp
  have e1: "(case payload (fst ?V) of LoanData (Some v) \<Rightarrow> view_verifiedBy v | _ \<Rightarrow> Unset) =
     Expanded [(''_id'', IdV 2), (''email'', StrV ''verifier@creditsea.com''), (''name'', StrV ''Loan Verifier'')]"
    by code_simp
  have "?V = (fst ?V, snd ?V) \<and> code (fst ?V) = 200" using s1 by simp
  with T[where env = sample_env and authorization = "Some ''Bearer tok-verifier''" and action = "Some ''verify''"
        and reason = None and idp = "Oid 10" and now = 200 and users = seed_users and loans = seed_loans
        and r = "fst ?V" and loans' = "snd ?V"]
  have c1: "\<exists>u v. User_findById (user_id u) seed_users = Some u \<and>
      payload (fst ?V) = LoanData (Some v) \<and>
      view_verifiedBy v =
        Expanded [(''_id'', IdV (user_id u)), (''email'', StrV (user_email u)), (''name'', StrV (user_name u))]"
    by blast
  have s2: "code (fst ?A) = 200" by code_simp
  have e2: "(case payload (fst ?A) of
      LoanData (Some v) \<Rightarrow> (view_verifiedBy v, view_approvedBy v) | _ \<Rightarrow> (Unset, Unset)) =
     (Expanded [(''_id'', IdV 2), (''email'', StrV ''verifier@creditsea.com''), (''name'', StrV ''Loan Verifier'')],
      Expanded [(''_id'', IdV 1), (''email'', StrV ''admin@creditsea.com''), (''name'', StrV ''System Administrator'')])"
    by code_simp
  have "?A = (fst ?A, snd ?A) \<and> code (fst ?A) = 200" using s2 by simp
  with T[where env = sample_env and authorization = "Some ''Bearer tok-admin''" and action = "Some ''approve''"
        and reason = None and idp = "Oid 11" and now = 300 and users = seed_users and loans = seed_loans
        and r = "fst ?A" and loans' = "snd ?A"]
  have c2: "\<exists>u v. User_findById (user_id u) seed_users = Some u \<and>
      payload (fst ?A) = LoanData (Some v) \<and>
      view_approvedBy v =
        Expanded [(''_id'', IdV (user_id u)), (''email'', StrV (user_email u)), (''name'', StrV (user_name u))]"
    by blast
  from s1 c1 e1 s2 c2 e2 show ?thesis by (intro conjI)
qed

text \<open>
  The claim as the specification words it (a summary containing only the name and email
  fields) fails on the identifier: when the verifier verifies loan 10, the paths of the
  expanded \<open>verifiedBy\<close> are \<open>_id\<close>, \<open>email\<close> and \<open>name\<close>.
\<close>

theorem populated_reference_id_counterexample:
  "code (fst (verify_endpoint sample_env (Some ''Bearer tok-verifier'') (Some ''verify'') None (Oid 10) 200
                seed_users seed_loans)) = 200 \<and>
   (case payload (fst (verify_endpoint sample_env (Some ''Bearer tok-verifier'') (Some ''verify'') None (Oid 10) 200
                         seed_users seed_loans)) of
      LoanData (Some v) \<Rightarrow> (case view_verifiedBy v of Expanded fs \<Rightarrow> map fst fs | _ \<Rightarrow> [])
    | _ \<Rightarrow> []) = [''_id'', ''email'', ''name''] \<and>
   ''_id'' \<notin> set [''name'', ''email'']"
  by code_simp

section \<open>The percentages of the dashboard\<close>

lemma status_counts_sum:
  "countDocuments_status ''pending'' loans + countDocuments_status ''verified'' loans +
   countDocuments_status ''approved'' loans + countDocuments_status ''rejected'' loans =
     countDocuments loans"
proof (induction loans)
  case Nil
  then show ?case by (simp add: countDocuments_status_def countDocuments_def)
next
  case (Cons l loans)
  then show ?case
    by (cases "status l") (simp_all add: countDocuments_status_def countDocuments_def)
qed

lemma tenths_close:
  assumes "0 \<le> r"
  shows "\<bar>of_nat (tenths r) - r * 10\<bar> \<le> (1 / 2 :: rat)"
proof -
  let ?x = "r * 10 + 1 / 2"
  from assms have "0 \<le> ?x" by simp
  then have nn: "0 \<le> \<lfloor>?x\<rfloor>" by simp
  then have t: "(of_nat (tenths r) :: rat) = of_int \<lfloor>?x\<rfloor>"
    by (simp add: tenths_def)
  have "of_int \<lfloor>?x\<rfloor> \<le> ?x" and "?x < of_int \<lfloor>?x\<rfloor> + 1"
    by linarith+
  with t show ?thesis by linarith
qed

lemma share_percentage:
  assumes "0 < t"
  shows "percentage (share s c t) = print_tenths (tenths (of_nat c / of_nat t * 100))"
proof -
  have "(0::rat) \<le> of_nat c / of_nat t * 100" by simp
  then have "\<not> (of_nat c / of_nat t * 100 < (0::rat))"
    and "\<bar>of_nat c / of_nat t * 100 :: rat\<bar> = of_nat c / of_nat t * 100"
    by (simp_all only: not_less abs_of_nonneg)
  with assms show ?thesis
    by (simp only: share_def js_divide_def js_times_100_def toFixed_1_def
          StatusShare.simps Number.case if_False append_Nil) simp
qed

lemma four_tenths:
  assumes "0 \<le> a" "0 \<le> b" "0 \<le> c" "0 \<le> d" and "a + b + c + d = (100::rat)"
  shows "\<bar>int (tenths a) + int (tenths b) + int (tenths c) + int (tenths d) - 1000\<bar> \<le> 2"
proof -
  from tenths_close[OF assms(1)] tenths_close[OF assms(2)] tenths_close[OF assms(3)]
       tenths_close[OF assms(4)] assms(5)
  have "\<bar>(of_nat (tenths a) + of_nat (tenths b) + of_nat (tenths c) + of_nat (tenths d) :: rat) - 1000\<bar> \<le> 2"
    by linarith
  then have "\<bar>(of_int (int (tenths a) + int (tenths b) + int (tenths c) + int (tenths d) - 1000) :: rat)\<bar>
      \<le> of_int 2"
    by simp
  then show ?thesis
    unfolding of_int_abs[symmetric] of_int_le_iff .
qed

text \<open>
  With at least one loan, each percentage is the exact share rounded to the nearest
  tenth, so the four printed values add up to 100 with an error of at most two tenths.
  The statement is about exact arithmetic on the shares; the rounding of the binary
  floating point division and multiplication is not modelled.
\<close>

lemma percentages_sum_to_100:
  assumes "loans \<noteq> []"
  shows "\<exists>p v a r. map percentage (statusDistribution loans) = map print_tenths [p, v, a, r] \<and>
           \<bar>int p + int v + int a + int r - 1000\<bar> \<le> 2"
proof -
  let ?t = "countDocuments loans"
  let ?c = "\<lambda>s. countDocuments_status s loans"
  let ?x = "\<lambda>s. (of_nat (?c s) / of_nat ?t * 100 :: rat)"
  let ?n = "\<lambda>s. tenths (?x s)"
  from assms have t: "0 < ?t" by (simp add: countDocuments_def)
  have m: "map percentage (statusDistribution loans) =
      map print_tenths [?n ''pending'', ?n ''verified'', ?n ''approved'', ?n ''rejected'']"
    using t by (simp add: statusDistribution_def Let_def share_percentage)
  have nn: "\<And>s. 0 \<le> ?x s" by simp
  have "?x ''pending'' + ?x ''verified'' + ?x ''approved'' + ?x ''rejected'' =
      of_nat (?c ''pending'' + ?c ''verified'' + ?c ''approved'' + ?c ''rejected'') / of_nat ?t * 100"
    by (simp add: add_divide_distrib ring_distribs)
  also have "\<dots> = 100" using t by (simp add: status_counts_sum)
  finally have "\<bar>int (?n ''pending'') + int (?n ''verified'') + int (?n ''approved'') +
          int (?n ''rejected'') - 1000\<bar> \<le> 2"
    by (rule four_tenths[OF nn nn nn nn])
  with m show ?thesis by blast
qed

text \<open>
  C6 on an empty collection. The total is zero, every count is zero, \<open>0 / 0\<close> is
  \<open>NaN\<close>, and \<open>toFixed(1)\<close> prints it as \<open>NaN\<close>: the route answers 200 and reports
  the four percentages as \<open>NaN\<close>, not as zero.
\<close>

theorem empty_collection_percentages_NaN:
  "countDocuments [] = 0 \<and>
   code (stats_handler []) = 200 \<and>
   payload (stats_handler []) =
     StatusDistribution
       [\<lparr> share_status = ''pending'', share_count = 0, percentage = ''NaN'' \<rparr>,
        \<lparr> share_status = ''verified'', share_count = 0, percentage = ''NaN'' \<rparr>,
        \<lparr> share_status = ''approved'', share_count = 0, percentage = ''NaN'' \<rparr>,
        \<lparr> share_status = ''rejected'', share_count = 0, percentage = ''NaN'' \<rparr>] \<and>
   toFixed_1 (Finite 0) = ''0.0'' \<and>
   ''NaN'' \<noteq> toFixed_1 (Finite 0)"
  by code_simp

end
